theory Spec2Isabelle
  imports Complex_Main "HOL-Library.AList"
begin

section \<open>Shared data: maps, errors, tokens\<close>

text \<open>
  A Go \<open>map[string]string\<close> is an association list whose keys are distinct. Go leaves
  the order of a \<open>range\<close> loop over a map unspecified; the order of the list stands for
  the order the runtime happens to take, so a statement about every list is a statement
  about every iteration order. \<open>map_of\<close> is the lookup, \<open>AList.delete\<close> is Go's
  \<open>delete(m, k)\<close>.
\<close>

type_synonym gomap = "(string \<times> string) list"

definition wf_gomap :: "gomap \<Rightarrow> bool" where
  "wf_gomap m = distinct (map fst m)"

text \<open>
  The message of a \<open>provider.OptionError\<close>: the three texts the mock factory builds
  (\<open>"not found"\<close>, \<open>fmt.Sprintf("expected %q, got %q", ev, av)\<close>, \<open>"unexpected"\<close>), kept
  structured so that Go's \<open>%q\<close> quoting needs no model.
\<close>

datatype option_message = NotFound | Expected string string | Unexpected

datatype error =
    ErrNoSuchProvider
  | ErrNoProviderWithVersion
  | OptionError string option_message
  | RetrieveError
  | ErrStorage string
  | ErrInternal string

text \<open>
  \<open>oauth2.Token\<close> as embedded in \<open>provider.Token\<close>. Instants are nanoseconds on the
  wall clock; \<open>Expiry = None\<close> is Go's zero \<open>time.Time\<close>.
\<close>

type_synonym time = int

record Token =
  AccessToken :: string
  TokenType :: string
  RefreshToken :: string
  Expiry :: "time option"

text \<open>
  Modelled from the spec: the margin of the oauth2 library before the expiry, ten
  seconds, and a second in nanoseconds (\<open>time.Second\<close>).
\<close>

definition second :: int where
  "second = 1000000000"

definition expiryDelta :: int where
  "expiryDelta = 10 * second"

text \<open>
  Modelled from the spec: \<open>Token.Valid\<close> (of the oauth2 library, not under src/), with
  the clock as an argument. A token without expiry never expires; a token is valid when
  it has an access token and its expiry, when set, is more than \<open>expiryDelta\<close> (ten
  seconds, which is why the test's token of five seconds is "already invalid") away.
\<close>

definition expired :: "time \<Rightarrow> Token \<Rightarrow> bool" where
  "expired now t = (case Expiry t of None \<Rightarrow> False | Some e \<Rightarrow> e - expiryDelta < now)"

definition Valid :: "time \<Rightarrow> Token \<Rightarrow> bool" where
  "Valid now t = (AccessToken t \<noteq> [] \<and> \<not> expired now t)"

section \<open>The mock provider (package testutil)\<close>

record MockClient =
  ID :: string
  Secret :: string

text \<open>
  A \<open>MockExchangeFunc\<close> is a Go closure \<open>func(code string) (*oauth2.Token, error)\<close>.
  The closures of the package read the clock (\<open>ExpiringMockExchange\<close>) and count their
  own calls (\<open>IncrementMockExchange\<close>, \<open>RefreshableMockExchange\<close>), so the model gives
  them the clock and the codes of the calls made so far. The constructors that hand out
  or amend a shared \<open>*oauth2.Token\<close> are not modelled; \<open>ErrorMockExchange\<close>, which
  returns no token, is.
\<close>

type_synonym MockExchangeFunc = "time \<Rightarrow> string list \<Rightarrow> string \<Rightarrow> error + Token"

definition ErrorMockExchange :: MockExchangeFunc where
  "ErrorMockExchange = (\<lambda>_ _ _. Inl RetrieveError)"

text \<open>
  The struct \<open>mock\<close>. \<open>refresh\<close> is the only field written after construction
  (\<open>putRefreshTokenCode\<close>). \<open>calls\<close> is not a field of the source: it records the code of
  every call of an exchange function, so that "no exchange call" can be stated.
\<close>

record mock =
  vsn :: int
  expectedOpts :: gomap
  exchanges :: "MockClient \<rightharpoonup> MockExchangeFunc"
  refresh :: "string \<rightharpoonup> string"
  calls :: "string list"

text \<open>
  \<open>oauth2.Endpoint\<close>: the two URLs of an authorization server. The authentication
  style of the test's endpoint is \<open>AuthStyleInParams\<close> throughout and is not a field.
\<close>

record Endpoint =
  AuthURL :: string
  TokenURL :: string

definition MockAuthCodeURL :: string where
  "MockAuthCodeURL = ''http://localhost/authorize''"

definition MockTokenURL :: string where
  "MockTokenURL = ''http://localhost/token''"

definition MockEndpoint :: Endpoint where
  "MockEndpoint = \<lparr>AuthURL = MockAuthCodeURL, TokenURL = MockTokenURL\<rparr>"

text \<open>
  The providers behind the interface \<open>provider.Provider\<close>: the mock of package testutil,
  which points to its owner, and the basic provider of an endpoint.
\<close>

datatype Provider = mockProvider mock | basicProvider Endpoint

text \<open>
  Modelled from the spec: the basic provider (its source is not under src/) has the
  single version 1. The version of the mock provider is the version of its owner
  (\<open>mockProvider.Version\<close>).
\<close>

fun Provider_Version :: "Provider \<Rightarrow> int" where
  "Provider_Version (mockProvider owner) = vsn owner"
| "Provider_Version (basicProvider _) = 1"

definition VersionLatest :: int where
  "VersionLatest = - 1"

text \<open>
  The first loop of \<open>mock.factory\<close>, over \<open>m.expectedOpts\<close>: it stops at the first
  expected option that is missing or different, and deletes every option it has matched
  from the caller's map. The map is a Go reference, so the deletions are visible to the
  caller: the loop returns the map as it leaves it.
\<close>

fun check_expected :: "gomap \<Rightarrow> gomap \<Rightarrow> error option \<times> gomap" where
  "check_expected [] options = (None, options)"
| "check_expected ((k, ev) # rest) options =
     (case map_of options k of
        None \<Rightarrow> (Some (OptionError k NotFound), options)
      | Some av \<Rightarrow>
          if av \<noteq> ev then (Some (OptionError k (Expected ev av)), options)
          else check_expected rest (AList.delete k options))"

text \<open>
  \<open>mock.factory\<close>: the version gate, the loop over the expected options, then the
  \<open>range\<close> over what is left of \<open>options\<close>, which returns at its first key.
\<close>

definition factory :: "mock \<Rightarrow> int \<Rightarrow> gomap \<Rightarrow> (error + Provider) \<times> gomap" where
  "factory m v options =
     (if v \<noteq> - 1 \<and> v \<noteq> vsn m then (Inl ErrNoProviderWithVersion, options)
      else case check_expected (expectedOpts m) options of
             (Some err, options') \<Rightarrow> (Inl err, options')
           | (None, options') \<Rightarrow>
               (case options' of
                  (k, _) # _ \<Rightarrow> (Inl (OptionError k Unexpected), options')
                | [] \<Rightarrow> (Inr (mockProvider m), options')))"

definition putRefreshTokenCode :: "mock \<Rightarrow> string \<Rightarrow> string \<Rightarrow> mock" where
  "putRefreshTokenCode m refreshToken code = m\<lparr>refresh := (refresh m)(refreshToken \<mapsto> code)\<rparr>"

definition getRefreshTokenCode :: "mock \<Rightarrow> string \<Rightarrow> string option" where
  "getRefreshTokenCode m refreshToken = refresh m refreshToken"

text \<open>
  \<open>mockExchangeConfig\<close> holds a pointer to its owner and the exchange function of its
  client (\<open>None\<close> is Go's nil function). The owner is passed in and returned, since
  \<open>Exchange\<close> writes its \<open>refresh\<close> map. \<open>call_fn\<close> is the call \<open>c.fn(code)\<close>, which
  also records the code. In \<open>Refresh\<close> the two tests of the first \<open>if\<close> of the source,
  \<open>t.RefreshToken == ""\<close> and \<open>c.fn == nil\<close>, are the inner \<open>if\<close> and the outer case.
\<close>

definition call_fn :: "MockExchangeFunc \<Rightarrow> time \<Rightarrow> mock \<Rightarrow> string \<Rightarrow> (error + Token) \<times> mock" where
  "call_fn f now m code = (f now (calls m) code, m\<lparr>calls := calls m @ [code]\<rparr>)"

definition Exchange ::
  "MockExchangeFunc option \<Rightarrow> time \<Rightarrow> mock \<Rightarrow> string \<Rightarrow> (error + Token) \<times> mock" where
  "Exchange fn now owner code =
     (case fn of
        None \<Rightarrow> (Inl RetrieveError, owner)
      | Some f \<Rightarrow>
          (case call_fn f now owner code of
             (Inl err, owner') \<Rightarrow> (Inl err, owner')
           | (Inr tok, owner') \<Rightarrow>
               (Inr tok,
                if RefreshToken tok \<noteq> [] then putRefreshTokenCode owner' (RefreshToken tok) code
                else owner')))"

definition Refresh ::
  "MockExchangeFunc option \<Rightarrow> time \<Rightarrow> mock \<Rightarrow> Token \<Rightarrow> (error + Token) \<times> mock" where
  "Refresh fn now owner t =
     (case fn of
        None \<Rightarrow> (Inr t, owner)
      | Some f \<Rightarrow>
          if RefreshToken t = [] then (Inr t, owner)
          else case getRefreshTokenCode owner (RefreshToken t) of
                 None \<Rightarrow> (Inr t, owner)
               | Some code \<Rightarrow>
                   if Valid now t then (Inr t, owner)
                   else call_fn f now owner code)"

definition Build :: "mock \<Rightarrow> MockClient \<Rightarrow> MockExchangeFunc option" where
  "Build owner client = exchanges owner client"

text \<open>
  \<open>MockFactory\<close> builds the mock from its options, version 1 unless an option says
  otherwise; the factory function it returns is \<open>factory\<close> of that mock.
\<close>

definition MockWithVersion :: "int \<Rightarrow> mock \<Rightarrow> mock" where
  "MockWithVersion v m = m\<lparr>vsn := v\<rparr>"

definition MockWithExpectedOptionValue :: "string \<Rightarrow> string \<Rightarrow> mock \<Rightarrow> mock" where
  "MockWithExpectedOptionValue opt val m = m\<lparr>expectedOpts := AList.update opt val (expectedOpts m)\<rparr>"

definition MockWithExchange :: "MockClient \<Rightarrow> MockExchangeFunc \<Rightarrow> mock \<Rightarrow> mock" where
  "MockWithExchange client fn m = m\<lparr>exchanges := (exchanges m)(client \<mapsto> fn)\<rparr>"

definition MockFactory :: "(mock \<Rightarrow> mock) list \<Rightarrow> mock" where
  "MockFactory opts =
     fold (\<lambda>opt m. opt m) opts
       (MockWithVersion 1
          \<lparr>vsn = 0, expectedOpts = [], exchanges = Map.empty, refresh = Map.empty, calls = []\<rparr>)"

text \<open>
  What it means for an \<open>OptionError\<close> to name an offending key, against the declared
  options and the options as the caller passed them: a declared key that is absent, a
  declared key whose value differs (with both values reported), or a key that is present
  and not declared.
\<close>

fun names_offending_key :: "gomap \<Rightarrow> gomap \<Rightarrow> error \<Rightarrow> bool" where
  "names_offending_key declared options (OptionError k NotFound) =
     (map_of declared k \<noteq> None \<and> map_of options k = None)"
| "names_offending_key declared options (OptionError k (Expected ev av)) =
     (map_of declared k = Some ev \<and> map_of options k = Some av \<and> av \<noteq> ev)"
| "names_offending_key declared options (OptionError k Unexpected) =
     (map_of declared k = None \<and> map_of options k \<noteq> None)"
| "names_offending_key declared options _ = False"

text \<open>
  The declared options that the loop of \<open>mock.factory\<close> matches before it stops, in the
  order of the iteration: the longest run from the start whose keys are in the caller's
  options with the expected value.
\<close>

definition matched_options :: "gomap \<Rightarrow> gomap \<Rightarrow> gomap" where
  "matched_options declared options =
     takeWhile (\<lambda>(k, ev). map_of options k = Some ev) declared"

text \<open>Sample inputs: a mock that declares one option, and a token.\<close>

definition one_option_mock :: mock where
  "one_option_mock = MockFactory [MockWithExpectedOptionValue ''opt'' ''value'']"

definition sample_token :: Token where
  "sample_token =
     \<lparr>AccessToken = ''abcd'', TokenType = ''bearer'', RefreshToken = ''efgh'', Expiry = None\<rparr>"


section \<open>The configuration paths (package backend)\<close>

subsection \<open>Field values\<close>

text \<open>
  A Go \<open>float64\<close> as far as the comparisons of the code need it: a real, the two
  infinities, or not-a-number. \<open>float64_less\<close> is Go's \<open><\<close>, false whenever an
  operand is not a number.
\<close>

datatype float64 = Finite real | PosInf | NegInf | NaN

fun float64_less :: "float64 \<Rightarrow> float64 \<Rightarrow> bool" where
  "float64_less NaN _ = False"
| "float64_less _ NaN = False"
| "float64_less (Finite x) (Finite y) = (x < y)"
| "float64_less (Finite _) PosInf = True"
| "float64_less (Finite _) NegInf = False"
| "float64_less PosInf _ = False"
| "float64_less NegInf NegInf = False"
| "float64_less NegInf _ = True"

record ConfigTuningEntry =
  ProviderTimeoutSeconds :: int
  ProviderTimeoutExpiryLeewayFactor :: float64
  RefreshCheckIntervalSeconds :: int
  RefreshExpiryDeltaFactor :: float64
  ReapCheckIntervalSeconds :: int
  ReapDryRun :: bool
  ReapNonRefreshableSeconds :: int
  ReapRevokedSeconds :: int
  ReapTransientErrorAttempts :: int
  ReapTransientErrorSeconds :: int

record ConfigEntry =
  Version :: int
  ClientID :: string
  ClientSecret :: string
  AuthURLParams :: gomap
  ProviderName :: string
  ProviderVersion :: int
  ProviderOptions :: gomap
  Tuning :: ConfigTuningEntry

text \<open>
  \<open>framework.FieldData\<close> for the paths \<open>config\<close> and \<open>config/auth_code_url\<close>: one
  field per key of \<open>configFields\<close> and \<open>configAuthCodeURLFields\<close>, \<open>None\<close> when the
  request does not carry the key. \<open>GetOk\<close> is the field itself; \<open>Get\<close> falls back to
  the default of the schema, or to the zero value of the type where the schema has none.
\<close>

record FieldData =
  client_id :: "string option"
  client_secret :: "string option"
  auth_url_params :: "gomap option"
  provider :: "string option"
  provider_options :: "gomap option"
  tune_provider_timeout_seconds :: "int option"
  tune_provider_timeout_expiry_leeway_factor :: "float64 option"
  tune_refresh_check_interval_seconds :: "int option"
  tune_refresh_expiry_delta_factor :: "float64 option"
  tune_reap_check_interval_seconds :: "int option"
  tune_reap_dry_run :: "bool option"
  tune_reap_non_refreshable_seconds :: "int option"
  tune_reap_revoked_seconds :: "int option"
  tune_reap_transient_error_attempts :: "int option"
  tune_reap_transient_error_seconds :: "int option"
  redirect_url :: "string option"
  scopes :: "string list option"
  state :: "string option"

definition Get :: "'a option \<Rightarrow> 'a \<Rightarrow> 'a" where
  "Get field dflt = (case field of None \<Rightarrow> dflt | Some v \<Rightarrow> v)"

text \<open>
  The two constants of package persistence that the path reads and src/ does not
  define: they are parameters of the operations.
\<close>

record persistence_consts =
  ConfigVersionLatest :: int
  DefaultConfigTuningEntry :: ConfigTuningEntry

subsection \<open>Responses\<close>

text \<open>
  The text of an error response: a fixed text, the text
  \<open>provider %q does not exist\<close> for a provider name, or the text of an error.
\<close>

datatype message = Text string | ProviderDoesNotExist string | ErrorText error

text \<open>
  The authorization URL, as its endpoint and its query parameters before URL encoding;
  the encoding into one string is not modelled.
\<close>

record URL =
  endpoint :: string
  query :: gomap

datatype data_value =
    VString string
  | VInt int
  | VFloat float64
  | VBool bool
  | VMap gomap
  | VURL URL

datatype Response = ErrorResponse message | DataResponse "(string \<times> data_value) list"

text \<open>A handler returns Go's pair \<open>(*logical.Response, error)\<close>; \<open>None\<close> is nil.\<close>

type_synonym result = "Response option \<times> error option"

subsection \<open>The registry, the store and the state of the backend\<close>

text \<open>
  A factory (\<open>provider.FactoryFunc\<close>) takes the requested version and the options, and
  returns a provider or an error, together with the options map as it leaves it (the
  map is a Go reference).
\<close>

type_synonym FactoryFunc = "int \<Rightarrow> gomap \<Rightarrow> (error + Provider) \<times> gomap"

type_synonym Registry = "string \<rightharpoonup> FactoryFunc"

text \<open>
  Modelled from the spec: the registry (\<open>provider.Registry\<close>, not under src/) maps
  names to factories. \<open>NewAt\<close> is the spec's \<open>build(name, version, options)\<close>: it fails
  with \<open>ErrNoSuchProvider\<close> for a name that is not registered, and otherwise hands the
  version and the options to the factory and returns what the factory returns.
\<close>

definition NewAt :: "Registry \<Rightarrow> string \<Rightarrow> int \<Rightarrow> gomap \<Rightarrow> (error + Provider) \<times> gomap" where
  "NewAt r name v options =
     (case r name of
        None \<Rightarrow> (Inl ErrNoSuchProvider, options)
      | Some f \<Rightarrow> f v options)"

text \<open>
  Modelled from the spec: \<open>New\<close> of the registry (not under src/) is the spec's
  \<open>build(name, latest, options)\<close>.
\<close>

definition New :: "Registry \<Rightarrow> string \<Rightarrow> gomap \<Rightarrow> (error + Provider) \<times> gomap" where
  "New r name options = NewAt r name VersionLatest options"

text \<open>
  Modelled from the spec: \<open>errmark.MarkedUser\<close> holds of the errors the spec counts as
  user errors among those a registry returns, the bad option (the marking rules are not
  under src/).
\<close>

fun MarkedUser :: "error \<Rightarrow> bool" where
  "MarkedUser (OptionError _ _) = True"
| "MarkedUser _ = False"

text \<open>
  Modelled from the spec: the persistence layer (not under src/). The Store holds the
  ConfigEntry under the key \<open>config\<close> and one CredentialEntry under \<open>creds/<name>\<close> for
  each name; entries are kept decoded. A Store that is out of order (\<open>fault\<close>) fails
  every operation with its error and changes nothing.
\<close>

record CredentialEntry =
  Token_of :: Token
  LastRefreshAt :: "time option"
  LastIssuedAt :: "time option"

datatype entry = ConfigRecord ConfigEntry | CredentialRecord CredentialEntry

record Storage =
  kv :: "string \<rightharpoonup> entry"
  fault :: "error option"

definition ConfigPath :: string where
  "ConfigPath = ''config''"

text \<open>
  Modelled from the spec: the key of the credential \<open>name\<close> is \<open>creds/<name>\<close> (the
  key schema is not under src/).
\<close>

definition creds_key :: "string \<Rightarrow> string" where
  "creds_key name = ''creds/'' @ name"

text \<open>
  Modelled from the spec: \<open>ReadConfig\<close> (not under src/) returns the entry under
  \<open>config\<close>, or nothing when there is none.
\<close>

definition ReadConfig :: "Storage \<Rightarrow> error + ConfigEntry option" where
  "ReadConfig st =
     (case fault st of
        Some err \<Rightarrow> Inl err
      | None \<Rightarrow>
          (case kv st ConfigPath of
             Some (ConfigRecord c) \<Rightarrow> Inr (Some c)
           | _ \<Rightarrow> Inr None))"

text \<open>
  Modelled from the spec: \<open>WriteConfig\<close> (not under src/) puts the entry under
  \<open>config\<close>, replacing the one that is there.
\<close>

definition WriteConfig :: "Storage \<Rightarrow> ConfigEntry \<Rightarrow> error option \<times> Storage" where
  "WriteConfig st c =
     (case fault st of
        Some err \<Rightarrow> (Some err, st)
      | None \<Rightarrow> (None, st\<lparr>kv := (kv st)(ConfigPath \<mapsto> ConfigRecord c)\<rparr>))"

text \<open>
  Modelled from the spec: \<open>DeleteConfig\<close> (not under src/) removes the entry under
  \<open>config\<close> and no other key.
\<close>

definition DeleteConfig :: "Storage \<Rightarrow> error option \<times> Storage" where
  "DeleteConfig st =
     (case fault st of
        Some err \<Rightarrow> (Some err, st)
      | None \<Rightarrow> (None, st\<lparr>kv := (kv st)(ConfigPath := None)\<rparr>))"

text \<open>
  The state the handlers work on: the registry and the cache of the backend, the
  Store of the request, and a record of the calls to the Store's writers and to
  \<open>reset\<close>, oldest first (not a field of the source; it is there to state how often
  and in which order these calls happen).
\<close>

record cache_bundle =
  Config :: ConfigEntry
  Provider :: Provider

datatype event = EvWriteConfig ConfigEntry | EvDeleteConfig | EvReset

record backend =
  providerRegistry :: Registry
  cache :: "cache_bundle option"
  storage :: Storage
  trace :: "event list"

text \<open>
  Modelled from the spec: \<open>reset\<close> (not under src/) invalidates the cache; cancelling
  and relaunching the schedulers is the event it leaves in the record.
\<close>

definition reset :: "backend \<Rightarrow> backend" where
  "reset b = b\<lparr>cache := None, trace := trace b @ [EvReset]\<rparr>"

text \<open>
  Modelled from the spec: \<open>getCache\<close> (not under src/) returns the live bundle, or
  builds it on first need from the stored ConfigEntry and the provider at the pinned
  version; no ConfigEntry gives no bundle and no error; a Store that cannot be read or
  a provider that cannot be built gives the error.
\<close>

definition getCache :: "backend \<Rightarrow> (error + cache_bundle option) \<times> backend" where
  "getCache b =
     (case cache b of
        Some c \<Rightarrow> (Inr (Some c), b)
      | None \<Rightarrow>
          (case ReadConfig (storage b) of
             Inl err \<Rightarrow> (Inl err, b)
           | Inr None \<Rightarrow> (Inr None, b)
           | Inr (Some cfg) \<Rightarrow>
               (case fst (NewAt (providerRegistry b) (ProviderName cfg) (ProviderVersion cfg)
                            (ProviderOptions cfg)) of
                  Inl err \<Rightarrow> (Inl err, b)
                | Inr p \<Rightarrow>
                    (Inr (Some \<lparr>Config = cfg, Provider = p\<rparr>),
                     b\<lparr>cache := Some \<lparr>Config = cfg, Provider = p\<rparr>\<rparr>))))"

subsection \<open>Read, update and delete of the configuration\<close>

definition configReadOperation :: "backend \<Rightarrow> result \<times> backend" where
  "configReadOperation b =
     (case getCache b of
        (Inl err, b') \<Rightarrow> ((None, Some err), b')
      | (Inr None, b') \<Rightarrow> ((None, None), b')
      | (Inr (Some c), b') \<Rightarrow>
          ((Some (DataResponse
             [(''client_id'', VString (ClientID (Config c))),
              (''auth_url_params'', VMap (AuthURLParams (Config c))),
              (''provider'', VString (ProviderName (Config c))),
              (''provider_version'', VInt (ProviderVersion (Config c))),
              (''provider_options'', VMap (ProviderOptions (Config c))),
              (''tune_provider_timeout_seconds'',
                 VInt (ProviderTimeoutSeconds (Tuning (Config c)))),
              (''tune_provider_timeout_expiry_leeway_factor'',
                 VFloat (ProviderTimeoutExpiryLeewayFactor (Tuning (Config c)))),
              (''tune_refresh_check_interval_seconds'',
                 VInt (RefreshCheckIntervalSeconds (Tuning (Config c)))),
              (''tune_refresh_expiry_delta_factor'',
                 VFloat (RefreshExpiryDeltaFactor (Tuning (Config c)))),
              (''tune_reap_check_interval_seconds'',
                 VInt (ReapCheckIntervalSeconds (Tuning (Config c)))),
              (''tune_reap_dry_run'', VBool (ReapDryRun (Tuning (Config c)))),
              (''tune_reap_non_refreshable_seconds'',
                 VInt (ReapNonRefreshableSeconds (Tuning (Config c)))),
              (''tune_reap_revoked_seconds'', VInt (ReapRevokedSeconds (Tuning (Config c)))),
              (''tune_reap_transient_error_attempts'',
                 VInt (ReapTransientErrorAttempts (Tuning (Config c)))),
              (''tune_reap_transient_error_seconds'',
                 VInt (ReapTransientErrorSeconds (Tuning (Config c))))]),
            None), b'))"

text \<open>
  The tuning entry that \<open>configUpdateOperation\<close> builds from the request, each field
  with \<open>data.Get\<close> and so with the default of its schema entry.
\<close>

definition requested_tuning :: "persistence_consts \<Rightarrow> FieldData \<Rightarrow> ConfigTuningEntry" where
  "requested_tuning consts data =
     (let d = DefaultConfigTuningEntry consts in
      \<lparr>ProviderTimeoutSeconds =
         Get (tune_provider_timeout_seconds data) (ProviderTimeoutSeconds d),
       ProviderTimeoutExpiryLeewayFactor =
         Get (tune_provider_timeout_expiry_leeway_factor data) (ProviderTimeoutExpiryLeewayFactor d),
       RefreshCheckIntervalSeconds =
         Get (tune_refresh_check_interval_seconds data) (RefreshCheckIntervalSeconds d),
       RefreshExpiryDeltaFactor =
         Get (tune_refresh_expiry_delta_factor data) (RefreshExpiryDeltaFactor d),
       ReapCheckIntervalSeconds =
         Get (tune_reap_check_interval_seconds data) (ReapCheckIntervalSeconds d),
       ReapDryRun = Get (tune_reap_dry_run data) (ReapDryRun d),
       ReapNonRefreshableSeconds =
         Get (tune_reap_non_refreshable_seconds data) (ReapNonRefreshableSeconds d),
       ReapRevokedSeconds = Get (tune_reap_revoked_seconds data) (ReapRevokedSeconds d),
       ReapTransientErrorAttempts =
         Get (tune_reap_transient_error_attempts data) (ReapTransientErrorAttempts d),
       ReapTransientErrorSeconds =
         Get (tune_reap_transient_error_seconds data) (ReapTransientErrorSeconds d)\<rparr>)"

text \<open>
  The sanity checks of the tuning options, the \<open>switch\<close> of \<open>configUpdateOperation\<close> in
  the order of its cases: the text of the first check that fails, or \<open>None\<close>. The
  bounds are \<open>int((90 * 24 * time.Hour).Seconds())\<close> and the same for 180 days. A factor
  that is not a number is below nothing, so it passes both checks on factors.
\<close>

definition sanity_check :: "ConfigTuningEntry \<Rightarrow> string option" where
  "sanity_check t =
     (if float64_less (ProviderTimeoutExpiryLeewayFactor t) (Finite 1)
        then Some ''provider timeout expiry leeway factor must be at least 1.0''
      else if RefreshCheckIntervalSeconds t > 90 * 24 * 3600
        then Some ''refresh check interval can be at most 90 days''
      else if float64_less (RefreshExpiryDeltaFactor t) (Finite 1)
        then Some ''refresh expiry delta factor must be at least 1.0''
      else if ReapCheckIntervalSeconds t > 180 * 24 * 3600
        then Some ''reap check interval can be at most 180 days''
      else if ReapTransientErrorAttempts t < 0
        then Some ''reap transient error attempts cannot be negative''
      else None)"

definition configUpdateOperation ::
  "persistence_consts \<Rightarrow> backend \<Rightarrow> FieldData \<Rightarrow> result \<times> backend" where
  "configUpdateOperation consts b data =
     (case client_id data of
        None \<Rightarrow> ((Some (ErrorResponse (Text ''missing client ID'')), None), b)
      | Some clientID \<Rightarrow>
     (case provider data of
        None \<Rightarrow> ((Some (ErrorResponse (Text ''missing provider'')), None), b)
      | Some providerName \<Rightarrow>
     (case New (providerRegistry b) providerName (Get (provider_options data) []) of
        (Inl err, _) \<Rightarrow>
          if err = ErrNoSuchProvider
            then ((Some (ErrorResponse (ProviderDoesNotExist providerName)), None), b)
          else if MarkedUser err
            then ((Some (ErrorResponse (ErrorText err)), None), b)
          else ((None, Some err), b)
      | (Inr p, providerOptions) \<Rightarrow>
          (let c = \<lparr>Version = ConfigVersionLatest consts,
                    ClientID = clientID,
                    ClientSecret = Get (client_secret data) [],
                    AuthURLParams = Get (auth_url_params data) [],
                    ProviderName = providerName,
                    ProviderVersion = Provider_Version p,
                    ProviderOptions = providerOptions,
                    Tuning = requested_tuning consts data\<rparr>
           in case sanity_check (Tuning c) of
                Some msg \<Rightarrow> ((Some (ErrorResponse (Text msg)), None), b)
              | None \<Rightarrow>
                  (case WriteConfig (storage b) c of
                     (Some err, st) \<Rightarrow>
                       ((None, Some err), b\<lparr>storage := st, trace := trace b @ [EvWriteConfig c]\<rparr>)
                   | (None, st) \<Rightarrow>
                       ((None, None),
                        reset (b\<lparr>storage := st, trace := trace b @ [EvWriteConfig c]\<rparr>)))))))"

definition configDeleteOperation :: "backend \<Rightarrow> result \<times> backend" where
  "configDeleteOperation b =
     (case DeleteConfig (storage b) of
        (Some err, st) \<Rightarrow> ((None, Some err), b\<lparr>storage := st, trace := trace b @ [EvDeleteConfig]\<rparr>)
      | (None, st) \<Rightarrow>
          ((None, None), reset (b\<lparr>storage := st, trace := trace b @ [EvDeleteConfig]\<rparr>)))"


subsection \<open>The authorization code URL\<close>

text \<open>
  Modelled from the spec: the options of an authorization code URL and the conforming
  builder (\<open>provider.NewConformingAuthCodeURLConfigBuilder\<close> and the options
  \<open>provider.With...\<close> are not under src/). The configuration of the URL is the client
  identifier, the endpoint, the redirect URL, the scopes, and the URL parameters in the
  order they were given. Options for the provider are accepted and have no effect on a
  conforming provider.
\<close>

datatype AuthCodeURLOption =
    WithRedirectURL string
  | WithScopes "string list"
  | WithURLParams gomap
  | WithProviderOptions gomap

record AuthCodeURLConfig =
  acClientID :: string
  acEndpoint :: Endpoint
  acRedirectURL :: string
  acScopes :: "string list"
  acURLParams :: "(string \<times> string) list"

text \<open>
  Modelled from the spec: the conforming builder (not under src/) starts from the
  endpoint and the client identifier, with nothing else set.
\<close>

definition NewConformingAuthCodeURLConfigBuilder :: "Endpoint \<Rightarrow> string \<Rightarrow> AuthCodeURLConfig" where
  "NewConformingAuthCodeURLConfigBuilder ep clientID =
     \<lparr>acClientID = clientID, acEndpoint = ep, acRedirectURL = [], acScopes = [],
      acURLParams = []\<rparr>"

text \<open>
  Modelled from the spec: the builder's \<open>with_redirect_url\<close>, \<open>with_scopes\<close>,
  \<open>with_url_params\<close> and \<open>with_provider_options\<close> (not under src/). Scopes and URL
  parameters add to the ones given before.
\<close>

fun apply_option :: "AuthCodeURLOption \<Rightarrow> AuthCodeURLConfig \<Rightarrow> AuthCodeURLConfig" where
  "apply_option (WithRedirectURL u) conf = conf\<lparr>acRedirectURL := u\<rparr>"
| "apply_option (WithScopes ss) conf = conf\<lparr>acScopes := acScopes conf @ ss\<rparr>"
| "apply_option (WithURLParams ps) conf = conf\<lparr>acURLParams := acURLParams conf @ ps\<rparr>"
| "apply_option (WithProviderOptions _) conf = conf"

text \<open>\<open>strings.Join\<close> of the Go library.\<close>

fun Join :: "string list \<Rightarrow> string \<Rightarrow> string" where
  "Join [] sep = []"
| "Join [x] sep = x"
| "Join (x # y # ys) sep = x @ sep @ Join (y # ys) sep"

text \<open>
  Modelled from the spec: \<open>AuthCodeURL\<close> of the conforming configuration (not under
  src/), which is the one of the oauth2 library. The URL is at the authorization
  endpoint; its query has \<open>response_type\<close> and \<open>client_id\<close> always, \<open>redirect_uri\<close>, \<open>scope\<close> and \<open>state\<close>
  when they are not empty, then every URL parameter with \<open>url.Values.Set\<close>, which
  replaces the value of a key that is already there.
\<close>

definition AuthCodeURL :: "AuthCodeURLConfig \<Rightarrow> string \<Rightarrow> (string \<times> string) list \<Rightarrow> URL" where
  "AuthCodeURL conf st opts =
     \<lparr>endpoint = AuthURL (acEndpoint conf),
      query =
        fold (\<lambda>(k, v). AList.update k v) (acURLParams conf @ opts)
          ([(''response_type'', ''code''), (''client_id'', acClientID conf)] @
           (if acRedirectURL conf \<noteq> [] then [(''redirect_uri'', acRedirectURL conf)] else []) @
           (if acScopes conf \<noteq> [] then [(''scope'', Join (acScopes conf) '' '')] else []) @
           (if st \<noteq> [] then [(''state'', st)] else []))\<rparr>"

text \<open>
  Modelled from the spec: \<open>NewAuthCodeURLConfigBuilder\<close> of the basic provider (not
  under src/) is the conforming builder on its own endpoint. The mock provider's is
  the conforming builder on \<open>MockEndpoint\<close> (\<open>mockProvider.NewAuthCodeURLConfigBuilder\<close>).
\<close>

fun NewAuthCodeURLConfigBuilder :: "Provider \<Rightarrow> string \<Rightarrow> AuthCodeURLConfig" where
  "NewAuthCodeURLConfigBuilder (mockProvider _) clientID =
     NewConformingAuthCodeURLConfigBuilder MockEndpoint clientID"
| "NewAuthCodeURLConfigBuilder (basicProvider ep) clientID =
     NewConformingAuthCodeURLConfigBuilder ep clientID"

text \<open>
  Modelled from the spec: \<open>Public(clientID).AuthCodeURL(state, opts...)\<close> applies the
  options to the provider's builder in their order and asks the result for the URL;
  both providers here have an authorization endpoint, so the flag is true.
\<close>

definition Public_AuthCodeURL ::
  "Provider \<Rightarrow> string \<Rightarrow> string \<Rightarrow> AuthCodeURLOption list \<Rightarrow> URL \<times> bool" where
  "Public_AuthCodeURL p clientID st opts =
     (AuthCodeURL (fold apply_option opts (NewAuthCodeURLConfigBuilder p clientID)) st [], True)"

definition configAuthCodeURLUpdateOperation :: "backend \<Rightarrow> FieldData \<Rightarrow> result \<times> backend" where
  "configAuthCodeURLUpdateOperation b data =
     (case getCache b of
        (Inl err, b') \<Rightarrow> ((None, Some err), b')
      | (Inr None, b') \<Rightarrow> ((Some (ErrorResponse (Text ''not configured'')), None), b')
      | (Inr (Some c), b') \<Rightarrow>
          (case state data of
             None \<Rightarrow> ((Some (ErrorResponse (Text ''missing state'')), None), b')
           | Some st \<Rightarrow>
               (case Public_AuthCodeURL (Provider c) (ClientID (Config c)) st
                       [WithRedirectURL (Get (redirect_url data) []),
                        WithScopes (Get (scopes data) []),
                        WithURLParams (Get (auth_url_params data) []),
                        WithURLParams (AuthURLParams (Config c)),
                        WithProviderOptions (Get (provider_options data) [])] of
                  (url, False) \<Rightarrow>
                    ((Some (ErrorResponse (Text ''authorization code URL not available'')), None), b')
                | (url, True) \<Rightarrow>
                    ((Some (DataResponse [(''url'', VURL url)]), None), b'))))"

text \<open>
  Modelled from the spec: the factory of the basic provider (\<open>provider.BasicFactory\<close>,
  not under src/) accepts the latest version and its own version 1, declares no option
  and rejects any key it is given.
\<close>

definition BasicFactory :: "Endpoint \<Rightarrow> FactoryFunc" where
  "BasicFactory ep v options =
     (if v \<noteq> - 1 \<and> v \<noteq> 1 then (Inl ErrNoProviderWithVersion, options)
      else case options of
             [] \<Rightarrow> (Inr (basicProvider ep), options)
           | (k, _) # _ \<Rightarrow> (Inl (OptionError k Unexpected), options))"

subsection \<open>The exchange configuration of the basic provider\<close>

text \<open>
  The token endpoint of \<open>TestBasicExchangeConfig\<close> (basic_test.go): the handler as a
  function from the path and the form in the body of the request to the response, and
  the assertions it makes on the way as a predicate on the same request.
\<close>

record http_response =
  StatusCode :: nat
  Body :: string

type_synonym handler = "string \<Rightarrow> gomap \<Rightarrow> http_response"

definition form_get :: "gomap \<Rightarrow> string \<Rightarrow> string" where
  "form_get data k = (case map_of data k of None \<Rightarrow> [] | Some v \<Rightarrow> v)"

definition test_handler :: handler where
  "test_handler path data =
     (if path = ''/token'' then
        (if form_get data ''grant_type'' = ''authorization_code''
           then \<lparr>StatusCode = 200,
                 Body = ''access_token=abcd&refresh_token=efgh&token_type=bearer&expires_in=5''\<rparr>
         else if form_get data ''grant_type'' = ''refresh_token''
           then \<lparr>StatusCode = 200,
                 Body = ''access_token=ijkl&refresh_token=efgh&token_type=bearer&expires_in=3600''\<rparr>
         else \<lparr>StatusCode = 200, Body = []\<rparr>)
      else \<lparr>StatusCode = 404, Body = []\<rparr>)"

definition test_handler_asserts :: "string \<Rightarrow> gomap \<Rightarrow> bool" where
  "test_handler_asserts path data =
     (path = ''/token'' \<longrightarrow>
        form_get data ''client_id'' = ''foo'' \<and>
        form_get data ''client_secret'' = ''bar'' \<and>
        (if form_get data ''grant_type'' = ''authorization_code''
           then form_get data ''code'' = ''123456'' \<and>
                form_get data ''redirect_uri'' = ''http://example.com/redirect'' \<and>
                form_get data ''baz'' = ''quux''
         else if form_get data ''grant_type'' = ''refresh_token''
           then form_get data ''refresh_token'' = ''efgh''
         else False))"

text \<open>
  Modelled from the spec: the path of a URL \<open>scheme://host/path\<close>, which is what the
  handler of the test switches on (URL parsing is the Go library's, not under src/).
\<close>

definition url_path :: "string \<Rightarrow> string" where
  "url_path u =
     dropWhile (\<lambda>c. c \<noteq> CHR ''/'') (drop 2 (dropWhile (\<lambda>c. c \<noteq> CHR ''/'') u))"

text \<open>
  Modelled from the spec: \<open>url.ParseQuery\<close> of the Go library on the form-encoded
  bodies of the spec's scenario, pairs \<open>key=value\<close> separated by \<open>&\<close>; escapes are not
  decoded.
\<close>

fun split_on :: "char \<Rightarrow> string \<Rightarrow> string \<Rightarrow> string list" where
  "split_on sep acc [] = [rev acc]"
| "split_on sep acc (c # cs) =
     (if c = sep then rev acc # split_on sep [] cs else split_on sep (c # acc) cs)"

definition ParseQuery :: "string \<Rightarrow> gomap" where
  "ParseQuery s =
     map (\<lambda>kv. (takeWhile (\<lambda>c. c \<noteq> CHR ''='') kv, drop 1 (dropWhile (\<lambda>c. c \<noteq> CHR ''='') kv)))
       (filter (\<lambda>kv. kv \<noteq> []) (split_on CHR ''&'' [] s))"

text \<open>
  Modelled from the spec: \<open>strconv.Atoi\<close> of the Go library on \<open>expires_in\<close>, with its
  error dropped as the oauth2 library does, so that a text that is not a number counts
  as 0.
\<close>

definition digit_of :: "char \<Rightarrow> nat option" where
  "digit_of c =
     (if c \<in> set ''0123456789'' then Some (of_char c - 48) else None)"

fun digits :: "nat \<Rightarrow> string \<Rightarrow> nat option" where
  "digits n [] = Some n"
| "digits n (c # cs) =
     (case digit_of c of None \<Rightarrow> None | Some d \<Rightarrow> digits (10 * n + d) cs)"

definition unsigned :: "string \<Rightarrow> int" where
  "unsigned s = (if s = [] then 0 else case digits 0 s of None \<Rightarrow> 0 | Some n \<Rightarrow> int n)"

fun Atoi :: "string \<Rightarrow> int" where
  "Atoi [] = 0"
| "Atoi (c # cs) =
     (if c = CHR ''-'' then - unsigned cs
      else if c = CHR ''+'' then unsigned cs
      else unsigned (c # cs))"

text \<open>
  Modelled from the spec: \<open>Token.Type\<close> (of the oauth2 library, not under src/), the
  token type up to case: \<open>bearer\<close>, \<open>mac\<close> and \<open>basic\<close> in any case give
  the canonical spelling, another type is kept, and no type is \<open>Bearer\<close>. The case of
  ASCII letters is all that \<open>strings.EqualFold\<close> has to fold here.
\<close>

definition lower :: "char \<Rightarrow> char" where
  "lower c =
     (if (65::nat) \<le> of_char c \<and> of_char c \<le> (90::nat) then char_of (of_char c + (32::nat)) else c)"

definition EqualFold :: "string \<Rightarrow> string \<Rightarrow> bool" where
  "EqualFold s t = (map lower s = map lower t)"

text \<open>
  Modelled from the spec: the type of a token, case-insensitive on \<open>bearer\<close>.
\<close>

definition Token_Type :: "Token \<Rightarrow> string" where
  "Token_Type t =
     (if EqualFold (TokenType t) ''bearer'' then ''Bearer''
      else if EqualFold (TokenType t) ''mac'' then ''MAC''
      else if EqualFold (TokenType t) ''basic'' then ''Basic''
      else if TokenType t \<noteq> [] then TokenType t
      else ''Bearer'')"

text \<open>
  Modelled from the spec: the exchange configuration of the basic provider (not under
  src/) implements the authorization code and refresh token grants with the client's
  identifier and secret against the token endpoint, through the oauth2 library. A
  request is a form posted to the path of the token URL, with the client's identifier
  and secret among the parameters (\<open>AuthStyleInParams\<close>); a status outside 200..299 is a
  \<open>RetrieveError\<close>; the token is read from the form-encoded body, and it expires
  \<open>expires_in\<close> seconds after the clock's reading when that number is not 0.
\<close>

record ExchangeConfig =
  exClientID :: string
  exClientSecret :: string
  exRedirectURL :: string
  exEndpoint :: Endpoint

text \<open>
  Modelled from the spec: \<open>exchange_builder(client_id, client_secret)\<close> of the basic
  provider and its \<open>WithRedirectURL\<close> (not under src/).
\<close>

definition basic_NewExchangeConfigBuilder :: "Endpoint \<Rightarrow> string \<Rightarrow> string \<Rightarrow> ExchangeConfig" where
  "basic_NewExchangeConfigBuilder ep clientID clientSecret =
     \<lparr>exClientID = clientID, exClientSecret = clientSecret, exRedirectURL = [], exEndpoint = ep\<rparr>"

definition basic_WithRedirectURL :: "string \<Rightarrow> ExchangeConfig \<Rightarrow> ExchangeConfig" where
  "basic_WithRedirectURL u conf = conf\<lparr>exRedirectURL := u\<rparr>"

text \<open>
  Modelled from the spec: the parameters of a token request with the client's
  identifier and secret added, the token read from a body at a reading of the clock,
  and one round trip to the token endpoint (the oauth2 library, not under src/).
\<close>

definition token_request :: "ExchangeConfig \<Rightarrow> gomap \<Rightarrow> gomap" where
  "token_request conf params =
     AList.update ''client_secret'' (exClientSecret conf)
       (AList.update ''client_id'' (exClientID conf) params)"

definition token_of_body :: "time \<Rightarrow> string \<Rightarrow> Token" where
  "token_of_body now body =
     (let vals = ParseQuery body; expires = Atoi (form_get vals ''expires_in'') in
      \<lparr>AccessToken = form_get vals ''access_token'',
       TokenType = form_get vals ''token_type'',
       RefreshToken = form_get vals ''refresh_token'',
       Expiry = (if expires \<noteq> 0 then Some (now + expires * second) else None)\<rparr>)"

definition retrieveToken :: "handler \<Rightarrow> ExchangeConfig \<Rightarrow> time \<Rightarrow> gomap \<Rightarrow> error + Token" where
  "retrieveToken h conf now params =
     (let resp = h (url_path (TokenURL (exEndpoint conf))) (token_request conf params) in
      if StatusCode resp < 200 \<or> StatusCode resp > 299 then Inl RetrieveError
      else let tok = token_of_body now (Body resp) in
           if AccessToken tok = [] then Inl (ErrInternal ''oauth2: server response missing access_token'')
           else Inr tok)"

text \<open>
  Modelled from the spec: the parameters of the authorization code grant, with the
  caller's extra parameters set last, and those of the refresh token grant.
\<close>

definition exchange_params :: "ExchangeConfig \<Rightarrow> string \<Rightarrow> (string \<times> string) list \<Rightarrow> gomap" where
  "exchange_params conf code opts =
     fold (\<lambda>(k, v). AList.update k v) opts
       ([(''grant_type'', ''authorization_code''), (''code'', code)] @
        (if exRedirectURL conf \<noteq> [] then [(''redirect_uri'', exRedirectURL conf)] else []))"

definition refresh_params :: "Token \<Rightarrow> gomap" where
  "refresh_params t = [(''grant_type'', ''refresh_token''), (''refresh_token'', RefreshToken t)]"

text \<open>
  Modelled from the spec: \<open>exchange(code, auth_code_opts...)\<close> of the basic provider (not
  under src/).
\<close>

definition basic_Exchange ::
  "handler \<Rightarrow> ExchangeConfig \<Rightarrow> time \<Rightarrow> string \<Rightarrow> (string \<times> string) list \<Rightarrow> error + Token" where
  "basic_Exchange h conf now code opts = retrieveToken h conf now (exchange_params conf code opts)"

text \<open>
  Modelled from the spec: \<open>refresh(token)\<close> of the basic provider (not under src/) asks
  the token source of the library for a token: a token that is still valid is returned
  as it is; otherwise the refresh token is sent, and kept when the
  answer carries none.
\<close>

definition basic_Refresh :: "handler \<Rightarrow> ExchangeConfig \<Rightarrow> time \<Rightarrow> Token \<Rightarrow> error + Token" where
  "basic_Refresh h conf now t =
     (if Valid now t then Inr t
      else if RefreshToken t = []
        then Inl (ErrInternal ''oauth2: token expired and refresh token is not set'')
      else case retrieveToken h conf now (refresh_params t) of
             Inl err \<Rightarrow> Inl err
           | Inr tok \<Rightarrow>
               Inr (if RefreshToken tok = [] then tok\<lparr>RefreshToken := RefreshToken t\<rparr> else tok))"

text \<open>
  Two backends differ only in the client secret when one is the other with the secret
  of every stored and cached ConfigEntry replaced.
\<close>

definition entry_with_client_secret :: "string \<Rightarrow> entry \<Rightarrow> entry" where
  "entry_with_client_secret x e =
     (case e of
        ConfigRecord c \<Rightarrow> ConfigRecord (c\<lparr>ClientSecret := x\<rparr>)
      | CredentialRecord c \<Rightarrow> CredentialRecord c)"

definition with_client_secret :: "string \<Rightarrow> backend \<Rightarrow> backend" where
  "with_client_secret x b =
     b\<lparr>cache := map_option (\<lambda>c. c\<lparr>Config := (Config c)\<lparr>ClientSecret := x\<rparr>\<rparr>) (cache b),
       storage := (storage b)\<lparr>kv := (\<lambda>k. map_option (entry_with_client_secret x) (kv (storage b) k))\<rparr>\<rparr>"

definition config_read_keys :: "string list" where
  "config_read_keys =
     [''client_id'', ''auth_url_params'', ''provider'', ''provider_version'', ''provider_options'',
      ''tune_provider_timeout_seconds'', ''tune_provider_timeout_expiry_leeway_factor'',
      ''tune_refresh_check_interval_seconds'', ''tune_refresh_expiry_delta_factor'',
      ''tune_reap_check_interval_seconds'', ''tune_reap_dry_run'',
      ''tune_reap_non_refreshable_seconds'', ''tune_reap_revoked_seconds'',
      ''tune_reap_transient_error_attempts'', ''tune_reap_transient_error_seconds'']"

subsection \<open>Sample inputs\<close>

text \<open>
  Values for the two constants of package persistence, a request with no field set,
  a request that configures the mock provider with the option it declares, a factory
  that fails with an error that is not a user error, and a backend that has both
  registered and nothing stored.
\<close>

definition sample_consts :: persistence_consts where
  "sample_consts =
     \<lparr>ConfigVersionLatest = 2,
      DefaultConfigTuningEntry =
        \<lparr>ProviderTimeoutSeconds = 30,
         ProviderTimeoutExpiryLeewayFactor = Finite (3 / 2),
         RefreshCheckIntervalSeconds = 60,
         RefreshExpiryDeltaFactor = Finite (6 / 5),
         ReapCheckIntervalSeconds = 300,
         ReapDryRun = False,
         ReapNonRefreshableSeconds = 86400,
         ReapRevokedSeconds = 3600,
         ReapTransientErrorAttempts = 10,
         ReapTransientErrorSeconds = 86400\<rparr>\<rparr>"

definition empty_request :: FieldData where
  "empty_request =
     \<lparr>client_id = None, client_secret = None, auth_url_params = None, provider = None,
      provider_options = None, tune_provider_timeout_seconds = None,
      tune_provider_timeout_expiry_leeway_factor = None,
      tune_refresh_check_interval_seconds = None, tune_refresh_expiry_delta_factor = None,
      tune_reap_check_interval_seconds = None, tune_reap_dry_run = None,
      tune_reap_non_refreshable_seconds = None, tune_reap_revoked_seconds = None,
      tune_reap_transient_error_attempts = None, tune_reap_transient_error_seconds = None,
      redirect_url = None, scopes = None, state = None\<rparr>"

definition mock_request :: FieldData where
  "mock_request =
     empty_request\<lparr>client_id := Some ''foo'', client_secret := Some ''bar'',
       provider := Some ''mock'', provider_options := Some [(''opt'', ''value'')]\<rparr>"

definition failing_factory :: FactoryFunc where
  "failing_factory = (\<lambda>v options. (Inl (ErrInternal ''provider unavailable''), options))"

definition sample_registry :: Registry where
  "sample_registry =
     [''mock'' \<mapsto> factory one_option_mock,
      ''failing'' \<mapsto> failing_factory,
      ''basic'' \<mapsto> BasicFactory MockEndpoint]"

definition sample_backend :: backend where
  "sample_backend =
     \<lparr>providerRegistry = sample_registry, cache = None,
      storage = \<lparr>kv = Map.empty, fault = None\<rparr>, trace = []\<rparr>"

definition bad_tuning_request :: FieldData where
  "bad_tuning_request =
     mock_request\<lparr>provider := Some ''failing'',
       tune_provider_timeout_expiry_leeway_factor := Some (Finite (1 / 2))\<rparr>"

definition negative_attempts_request :: FieldData where
  "negative_attempts_request = mock_request\<lparr>tune_reap_transient_error_attempts := Some (- 1)\<rparr>"

text \<open>
  A ConfigEntry for the basic provider of the test's endpoint with client \<open>foo\<close> and
  the URL parameter \<open>audience=x\<close>, a backend that has it stored together with a
  credential \<open>alice\<close>, the same backend with a Store that is out of order, a backend
  whose stored entry pins a version of the mock provider that is not registered, and
  the request of the URL scenario.
\<close>

definition basic_config :: ConfigEntry where
  "basic_config =
     \<lparr>Version = 2, ClientID = ''foo'', ClientSecret = ''bar'',
      AuthURLParams = [(''audience'', ''x'')], ProviderName = ''basic'', ProviderVersion = 1,
      ProviderOptions = [], Tuning = DefaultConfigTuningEntry sample_consts\<rparr>"

definition alice :: CredentialEntry where
  "alice = \<lparr>Token_of = sample_token, LastRefreshAt = None, LastIssuedAt = Some 0\<rparr>"

definition configured_backend :: backend where
  "configured_backend =
     sample_backend\<lparr>storage :=
       \<lparr>kv = [ConfigPath \<mapsto> ConfigRecord basic_config, creds_key ''alice'' \<mapsto> CredentialRecord alice],
        fault = None\<rparr>\<rparr>"

definition faulty_backend :: backend where
  "faulty_backend =
     configured_backend\<lparr>storage := (storage configured_backend)\<lparr>fault := Some (ErrStorage ''unavailable'')\<rparr>\<rparr>"

definition pinned_backend :: backend where
  "pinned_backend =
     sample_backend\<lparr>storage :=
       \<lparr>kv = [ConfigPath \<mapsto> ConfigRecord (basic_config\<lparr>ProviderName := ''mock'', ProviderVersion := 2\<rparr>)],
        fault = None\<rparr>\<rparr>"

definition url_request :: FieldData where
  "url_request =
     empty_request\<lparr>state := Some ''s'', redirect_url := Some ''http://example.com/redirect'',
       scopes := Some [''a'', ''b'', ''c''], auth_url_params := Some [(''baz'', ''quux'')]\<rparr>"

text \<open>The exchange configuration that \<open>TestBasicExchangeConfig\<close> builds.\<close>

definition test_exchange_config :: ExchangeConfig where
  "test_exchange_config =
     basic_WithRedirectURL ''http://example.com/redirect''
       (basic_NewExchangeConfigBuilder MockEndpoint ''foo'' ''bar'')"

section \<open>Properties of the mock provider\<close>

subsection \<open>The loop over the expected options\<close>

lemma check_expected_ok:
  "check_expected es options = (None, options') \<Longrightarrow>
     (\<forall>(k, ev) \<in> set es. map_of options k = Some ev) \<and>
     options' = filter (\<lambda>p. fst p \<notin> fst ` set es) options"
proof (induction es arbitrary: options)
  case Nil
  then show ?case by simp
next
  case (Cons a es)
  obtain k ev where a: "a = (k, ev)" by (cases a)
  from Cons.prems a obtain
    hit: "map_of options k = Some ev" and
    rest: "check_expected es (AList.delete k options) = (None, options')"
    by (auto split: option.splits if_splits)
  from Cons.IH [OF rest] have
    ih1: "\<forall>(k', ev') \<in> set es. map_of (AList.delete k options) k' = Some ev'" and
    ih2: "options' = filter (\<lambda>p. fst p \<notin> fst ` set es) (AList.delete k options)"
    by simp_all
  have "\<forall>(k', ev') \<in> set es. map_of options k' = Some ev'"
    using ih1 by (auto simp: AList.delete_conv split: if_splits)
  moreover have "options' = filter (\<lambda>p. fst p \<notin> fst ` set (a # es)) options"
    unfolding ih2 a by (auto simp: AList.delete_eq intro: filter_cong)
  ultimately show ?case using hit a by simp
qed

lemma check_expected_complete:
  "distinct (map fst es) \<Longrightarrow> \<forall>(k, ev) \<in> set es. map_of options k = Some ev \<Longrightarrow>
     fst (check_expected es options) = None"
proof (induction es arbitrary: options)
  case Nil
  then show ?case by simp
next
  case (Cons a es)
  obtain k ev where a: "a = (k, ev)" by (cases a)
  from Cons.prems a have hit: "map_of options k = Some ev" by simp
  from Cons.prems a have fresh: "k \<notin> fst ` set es" by simp
  have "map_of (AList.delete k options) k' = Some ev'" if "(k', ev') \<in> set es" for k' ev'
  proof -
    from that fresh have "k' \<noteq> k" by force
    moreover from that Cons.prems(2) have "map_of options k' = Some ev'" by auto
    ultimately show ?thesis by simp
  qed
  then have "\<forall>(k', ev') \<in> set es. map_of (AList.delete k options) k' = Some ev'" by auto
  with Cons.IH [of "AList.delete k options"] Cons.prems(1)
  have "fst (check_expected es (AList.delete k options)) = None" by simp
  then show ?case using hit a by simp
qed

lemma check_expected_error:
  "distinct (map fst es) \<Longrightarrow> check_expected es options = (Some e, options') \<Longrightarrow>
     (\<exists>k. e = OptionError k NotFound \<and> k \<in> fst ` set es \<and> map_of options k = None) \<or>
     (\<exists>k ev av. e = OptionError k (Expected ev av) \<and> (k, ev) \<in> set es \<and>
        map_of options k = Some av \<and> av \<noteq> ev)"
proof (induction es arbitrary: options)
  case Nil
  then show ?case by simp
next
  case (Cons a es)
  obtain k ev where a: "a = (k, ev)" by (cases a)
  show ?case
  proof (cases "map_of options k")
    case None
    with Cons.prems a show ?thesis by auto
  next
    case (Some av)
    show ?thesis
    proof (cases "av = ev")
      case False
      with Some Cons.prems a show ?thesis by auto
    next
      case True
      with Some Cons.prems a have
        rest: "check_expected es (AList.delete k options) = (Some e, options')" by simp
      from Cons.prems a have d: "distinct (map fst es)" and fresh: "k \<notin> fst ` set es" by simp_all
      from Cons.IH [OF d rest] fresh show ?thesis
        unfolding a by (auto simp: AList.delete_conv split: if_splits) 
    qed
  qed
qed

lemma check_expected_shrinks:
  "set (snd (check_expected es options)) \<subseteq> set options"
proof (induction es arbitrary: options)
  case Nil
  then show ?case by simp
next
  case (Cons a es)
  obtain k ev where a: "a = (k, ev)" by (cases a)
  have "set (AList.delete k options) \<subseteq> set options" by (auto simp: AList.delete_eq)
  with Cons.IH [of "AList.delete k options"] show ?case
    unfolding a by (auto split: option.splits)
qed


lemma exact_match_iff:
  assumes "distinct (map fst es)"
  shows "map_of options = map_of es \<longleftrightarrow>
     (\<forall>(k, ev) \<in> set es. map_of options k = Some ev) \<and>
     filter (\<lambda>p. fst p \<notin> fst ` set es) options = []"
proof
  assume eq: "map_of options = map_of es"
  have "\<forall>(k, ev) \<in> set es. map_of options k = Some ev"
    using assms eq by auto
  moreover have "fst p \<in> fst ` set es" if "p \<in> set options" for p
  proof -
    from that have "map_of options (fst p) \<noteq> None"
      by (metis map_of_eq_None_iff image_eqI)
    with eq have "map_of es (fst p) \<noteq> None" by simp
    then show ?thesis by (simp add: map_of_eq_None_iff)
  qed
  then have "filter (\<lambda>p. fst p \<notin> fst ` set es) options = []"
    by (simp add: filter_empty_conv)
  ultimately show "(\<forall>(k, ev) \<in> set es. map_of options k = Some ev) \<and>
     filter (\<lambda>p. fst p \<notin> fst ` set es) options = []" by simp
next
  assume r: "(\<forall>(k, ev) \<in> set es. map_of options k = Some ev) \<and>
     filter (\<lambda>p. fst p \<notin> fst ` set es) options = []"
  show "map_of options = map_of es"
  proof
    fix k
    show "map_of options k = map_of es k"
    proof (cases "map_of es k")
      case None
      then have "k \<notin> fst ` set es" by (simp add: map_of_eq_None_iff)
      moreover from r have "\<forall>p \<in> set options. fst p \<in> fst ` set es"
        by (simp add: filter_empty_conv)
      ultimately have "k \<notin> fst ` set options" by auto
      then have "map_of options k = None" by (simp add: map_of_eq_None_iff)
      with None show ?thesis by simp
    next
      case (Some ev)
      then have "(k, ev) \<in> set es" by (rule map_of_SomeD)
      with r have "map_of options k = Some ev" by auto
      with Some show ?thesis by simp
    qed
  qed
qed

lemma factory_gate_closed:
  "v \<noteq> - 1 \<Longrightarrow> v \<noteq> vsn m \<Longrightarrow> factory m v options = (Inl ErrNoProviderWithVersion, options)"
  by (simp add: factory_def)

lemma factory_provider_iff:
  assumes "wf_gomap (expectedOpts m)" and "v = - 1 \<or> v = vsn m"
  shows "fst (factory m v options) = Inr (mockProvider m) \<longleftrightarrow>
         map_of options = map_of (expectedOpts m)"
proof -
  let ?es = "expectedOpts m"
  from assms(1) have d: "distinct (map fst ?es)" by (simp add: wf_gomap_def)
  obtain r options' where ce: "check_expected ?es options = (r, options')"
    by (cases "check_expected ?es options")
  show ?thesis
  proof (cases r)
    case None
    from check_expected_ok [OF ce [unfolded None]] have
      hits: "\<forall>(k, ev) \<in> set ?es. map_of options k = Some ev" and
      left: "options' = filter (\<lambda>p. fst p \<notin> fst ` set ?es) options" by simp_all
    have "fst (factory m v options) = Inr (mockProvider m) \<longleftrightarrow> options' = []"
      using assms(2) ce None by (auto simp: factory_def split: list.splits)
    also have "\<dots> \<longleftrightarrow> map_of options = map_of ?es"
      using hits left exact_match_iff [OF d, of options] by simp
    finally show ?thesis .
  next
    case (Some e)
    have no: "fst (factory m v options) \<noteq> Inr (mockProvider m)"
      using assms(2) ce Some by (auto simp: factory_def)
    have "\<not> (\<forall>(k, ev) \<in> set ?es. map_of options k = Some ev)"
    proof
      assume "\<forall>(k, ev) \<in> set ?es. map_of options k = Some ev"
      from check_expected_complete [OF d this] ce Some show False by simp
    qed
    then have "map_of options \<noteq> map_of ?es"
      using exact_match_iff [OF d, of options] by blast
    with no show ?thesis by simp
  qed
qed

lemma factory_error_kind:
  assumes "wf_gomap (expectedOpts m)" and "fst (factory m v options) = Inl e"
    and "v = - 1 \<or> v = vsn m"
  shows "names_offending_key (expectedOpts m) options e"
proof -
  let ?es = "expectedOpts m"
  from assms(1) have d: "distinct (map fst ?es)" by (simp add: wf_gomap_def)
  obtain r options' where ce: "check_expected ?es options = (r, options')"
    by (cases "check_expected ?es options")
  show ?thesis
  proof (cases r)
    case None
    from check_expected_ok [OF ce [unfolded None]] have
      left: "options' = filter (\<lambda>p. fst p \<notin> fst ` set ?es) options" by simp
    from assms(2,3) ce None obtain k x rest where
      o: "options' = (k, x) # rest" and e: "e = OptionError k Unexpected"
      by (auto simp: factory_def split: list.splits)
    from o left have "(k, x) \<in> set (filter (\<lambda>p. fst p \<notin> fst ` set ?es) options)"
      by (metis list.set_intros(1))
    then have "k \<notin> fst ` set ?es" and "(k, x) \<in> set options" by auto
    then have "map_of ?es k = None" and "map_of options k \<noteq> None"
      by (auto simp: map_of_eq_None_iff intro: image_eqI [where x = "(k, x)"])
    with e show ?thesis by simp
  next
    case (Some e')
    with assms(2,3) ce have e: "e' = e" by (auto simp: factory_def)
    from check_expected_error [OF d ce [unfolded Some e]]
    show ?thesis
    proof
      assume "\<exists>k. e = OptionError k NotFound \<and> k \<in> fst ` set ?es \<and> map_of options k = None"
      then obtain k where "e = OptionError k NotFound" and "k \<in> fst ` set ?es"
        and "map_of options k = None" by blast
      then show ?thesis by (simp add: map_of_eq_None_iff)
    next
      assume "\<exists>k ev av. e = OptionError k (Expected ev av) \<and> (k, ev) \<in> set ?es \<and>
        map_of options k = Some av \<and> av \<noteq> ev"
      then show ?thesis using d by auto
    qed
  qed
qed

lemma factory_only_deletes: "set (snd (factory m v options)) \<subseteq> set options"
proof -
  have "snd (factory m v options) = options \<or>
        snd (factory m v options) = snd (check_expected (expectedOpts m) options)"
    by (auto simp: factory_def split: prod.splits option.splits list.splits)
  then show ?thesis using check_expected_shrinks [of "expectedOpts m" options] by auto
qed

lemma factory_provider_empties:
  "fst (factory m v options) = Inr p \<Longrightarrow> snd (factory m v options) = []"
  by (auto simp: factory_def split: if_splits prod.splits option.splits list.splits)


lemma check_expected_deletes:
  "distinct (map fst es) \<Longrightarrow>
     snd (check_expected es options) =
       filter (\<lambda>p. fst p \<notin> fst ` set (matched_options es options)) options"
proof (induction es arbitrary: options)
  case Nil
  then show ?case by (simp add: matched_options_def)
next
  case (Cons a es)
  obtain k ev where a: "a = (k, ev)" by (cases a)
  from Cons.prems a have d: "distinct (map fst es)" and fresh: "k \<notin> fst ` set es" by simp_all
  show ?case
  proof (cases "map_of options k = Some ev")
    case False
    then have "matched_options (a # es) options = []"
      by (simp add: matched_options_def a)
    moreover from False have "snd (check_expected (a # es) options) = options"
      by (auto simp: a split: option.splits)
    ultimately show ?thesis by simp
  next
    case True
    have same: "matched_options es (AList.delete k options) = matched_options es options"
      unfolding matched_options_def
    proof (rule takeWhile_cong [OF refl])
      fix x assume x: "x \<in> set es"
      obtain k' ev' where x': "x = (k', ev')" by (cases x)
      from x x' fresh have "k' \<noteq> k" by force
      then show "(case x of (j, w) \<Rightarrow> map_of (AList.delete k options) j = Some w) =
          (case x of (j, w) \<Rightarrow> map_of options j = Some w)"
        by (simp add: x')
    qed
    from True have m: "matched_options (a # es) options = (k, ev) # matched_options es options"
      by (simp add: matched_options_def a)
    from True have "snd (check_expected (a # es) options) =
        snd (check_expected es (AList.delete k options))"
      by (simp add: a)
    also have "\<dots> = filter (\<lambda>p. fst p \<notin> fst ` set (matched_options es options))
        (AList.delete k options)"
      using Cons.IH [OF d, of "AList.delete k options"] by (simp add: same)
    also have "\<dots> = filter (\<lambda>p. fst p \<notin> fst ` set (matched_options (a # es) options)) options"
      by (auto simp: m AList.delete_eq intro: filter_cong)
    finally show ?thesis .
  qed
qed

lemma factory_deletes_matched:
  assumes "wf_gomap (expectedOpts m)" and "v = - 1 \<or> v = vsn m"
  shows "snd (factory m v options) =
     filter (\<lambda>p. fst p \<notin> fst ` set (matched_options (expectedOpts m) options)) options"
proof -
  from assms(1) have d: "distinct (map fst (expectedOpts m))" by (simp add: wf_gomap_def)
  have "snd (factory m v options) = snd (check_expected (expectedOpts m) options)"
    using assms(2) by (auto simp: factory_def split: prod.splits option.splits list.splits)
  with check_expected_deletes [OF d, of options] show ?thesis by simp
qed

lemmas sample_mock_defs =
  one_option_mock_def MockFactory_def MockWithExpectedOptionValue_def MockWithVersion_def
  VersionLatest_def factory_def wf_gomap_def

subsection \<open>Claims about the factory\<close>

text \<open>
  C4, as the code has it. A version other than the sentinel \<open>- 1\<close> and the mock's own
  version is refused with \<open>ErrNoProviderWithVersion\<close>, whatever the options are, and the
  options are left alone. The sentinel and the mock's own version pass the gate: the
  result is then never \<open>ErrNoProviderWithVersion\<close>, and it is the provider exactly when
  the options are the declared ones; the gate alone does not yield a provider.
\<close>

theorem factory_version_gate:
  assumes "wf_gomap (expectedOpts m)"
  shows "if v = VersionLatest \<or> v = vsn m
         then fst (factory m v options) \<noteq> Inl ErrNoProviderWithVersion \<and>
              (fst (factory m v options) = Inr (mockProvider m) \<longleftrightarrow>
                 map_of options = map_of (expectedOpts m))
         else factory m v options = (Inl ErrNoProviderWithVersion, options)"
proof (cases "v = VersionLatest \<or> v = vsn m")
  case True
  then have gate: "v = - 1 \<or> v = vsn m" by (simp add: VersionLatest_def)
  have "fst (factory m v options) \<noteq> Inl ErrNoProviderWithVersion"
  proof
    assume "fst (factory m v options) = Inl ErrNoProviderWithVersion"
    from factory_error_kind [OF assms this gate] show False by simp
  qed
  with factory_provider_iff [OF assms gate] True show ?thesis by simp
next
  case False
  then have "v \<noteq> - 1" and "v \<noteq> vsn m" by (simp_all add: VersionLatest_def)
  from factory_gate_closed [OF this] False show ?thesis by simp
qed

theorem factory_version_gate_witness:
  "wf_gomap (expectedOpts one_option_mock) \<and>
   fst (factory one_option_mock VersionLatest [(''opt'', ''value'')]) = Inr (mockProvider one_option_mock) \<and>
   fst (factory one_option_mock 1 [(''opt'', ''value'')]) = Inr (mockProvider one_option_mock) \<and>
   factory one_option_mock 7 [(''opt'', ''value'')] = (Inl ErrNoProviderWithVersion, [(''opt'', ''value'')])"
proof -
  have wf: "wf_gomap (expectedOpts one_option_mock)"
    by (simp add: sample_mock_defs)
  have e: "expectedOpts one_option_mock = [(''opt'', ''value'')]" and v: "vsn one_option_mock = 1"
    by (simp_all add: sample_mock_defs)
  from factory_version_gate [OF wf, of VersionLatest "[(''opt'', ''value'')]"]
       factory_version_gate [OF wf, of 1 "[(''opt'', ''value'')]"]
       factory_version_gate [OF wf, of 7 "[(''opt'', ''value'')]"]
  show ?thesis using wf by (simp add: e v VersionLatest_def)
qed

text \<open>
  C4 as stated fails: asked for the latest version with no options, a mock that declares
  the option \<open>opt\<close> returns an option error, not a provider.
\<close>

theorem factory_latest_without_options_counterexample:
  "fst (factory one_option_mock VersionLatest []) = Inl (OptionError ''opt'' NotFound)"
  by (simp add: sample_mock_defs)

text \<open>
  C5, as the code has it. Past the version gate, the factory returns the provider exactly
  when the options are the declared ones, and otherwise an \<open>OptionError\<close> that names an
  offending key. It is not pure: on every path, with or without an error, the map it
  leaves to the caller is the caller's map without the declared options it has matched
  before it stopped, so the map is empty when the provider is returned; it never adds
  to it.
\<close>

theorem factory_validates_options:
  assumes "wf_gomap (expectedOpts m)" and "v = VersionLatest \<or> v = vsn m"
  shows "(map_of options = map_of (expectedOpts m) \<longrightarrow>
            factory m v options = (Inr (mockProvider m), [])) \<and>
         (map_of options \<noteq> map_of (expectedOpts m) \<longrightarrow>
            (\<exists>e. fst (factory m v options) = Inl e \<and>
                 names_offending_key (expectedOpts m) options e)) \<and>
         snd (factory m v options) =
           filter (\<lambda>p. fst p \<notin> fst ` set (matched_options (expectedOpts m) options)) options \<and>
         set (snd (factory m v options)) \<subseteq> set options"
proof -
  from assms(2) have gate: "v = - 1 \<or> v = vsn m" by (simp add: VersionLatest_def)
  note iff = factory_provider_iff [OF assms(1) gate, of options]
  have "factory m v options = (Inr (mockProvider m), [])"
    if "map_of options = map_of (expectedOpts m)"
  proof -
    from that iff have p: "fst (factory m v options) = Inr (mockProvider m)" by simp
    from factory_provider_empties [OF p] p show ?thesis
      by (cases "factory m v options") simp
  qed
  moreover have "\<exists>e. fst (factory m v options) = Inl e \<and>
      names_offending_key (expectedOpts m) options e"
    if "map_of options \<noteq> map_of (expectedOpts m)"
  proof (cases "fst (factory m v options)")
    case (Inl e)
    from factory_error_kind [OF assms(1) Inl gate] Inl show ?thesis by simp
  next
    case (Inr p)
    then have "p = mockProvider m"
      by (auto simp: factory_def split: if_splits prod.splits option.splits list.splits)
    with Inr iff that show ?thesis by simp
  qed
  ultimately show ?thesis
    using factory_only_deletes [of m v options] factory_deletes_matched [OF assms(1) gate, of options]
    by blast
qed

theorem factory_validates_options_witness:
  "wf_gomap (expectedOpts one_option_mock) \<and>
   factory one_option_mock VersionLatest [(''opt'', ''value'')] = (Inr (mockProvider one_option_mock), []) \<and>
   names_offending_key (expectedOpts one_option_mock) [(''opt'', ''other'')]
     (OptionError ''opt'' (Expected ''value'' ''other'')) \<and>
   factory one_option_mock VersionLatest [(''opt'', ''other'')] =
     (Inl (OptionError ''opt'' (Expected ''value'' ''other'')), [(''opt'', ''other'')]) \<and>
   matched_options (expectedOpts one_option_mock) [(''opt'', ''value''), (''extra'', ''1'')] =
     [(''opt'', ''value'')] \<and>
   factory one_option_mock VersionLatest [(''opt'', ''value''), (''extra'', ''1'')] =
     (Inl (OptionError ''extra'' Unexpected), [(''extra'', ''1'')])"
proof -
  have wf: "wf_gomap (expectedOpts one_option_mock)"
    by (simp add: sample_mock_defs)
  have e: "expectedOpts one_option_mock = [(''opt'', ''value'')]"
    by (simp add: sample_mock_defs)
  have g: "VersionLatest = VersionLatest \<or> VersionLatest = vsn one_option_mock" by simp
  have bad: "fst (factory one_option_mock VersionLatest [(''opt'', ''other'')]) =
     Inl (OptionError ''opt'' (Expected ''value'' ''other''))"
    and extra: "fst (factory one_option_mock VersionLatest [(''opt'', ''value''), (''extra'', ''1'')]) =
     Inl (OptionError ''extra'' Unexpected)"
    by (simp_all add: sample_mock_defs)
  have m1: "matched_options [(''opt'', ''value'')] [(''opt'', ''other'')] = []"
    and m2: "matched_options [(''opt'', ''value'')] [(''opt'', ''value''), (''extra'', ''1'')] =
      [(''opt'', ''value'')]"
    by (simp_all add: matched_options_def)
  from factory_validates_options [OF wf g, of "[(''opt'', ''value'')]"]
  have 1: "factory one_option_mock VersionLatest [(''opt'', ''value'')] =
      (Inr (mockProvider one_option_mock), [])"
    by (simp add: e)
  from factory_validates_options [OF wf g, of "[(''opt'', ''other'')]"]
  have 2: "names_offending_key (expectedOpts one_option_mock) [(''opt'', ''other'')]
       (OptionError ''opt'' (Expected ''value'' ''other''))"
    and 3: "snd (factory one_option_mock VersionLatest [(''opt'', ''other'')]) = [(''opt'', ''other'')]"
    using bad by (auto simp: e m1)
  from factory_validates_options [OF wf g, of "[(''opt'', ''value''), (''extra'', ''1'')]"]
  have 4: "snd (factory one_option_mock VersionLatest [(''opt'', ''value''), (''extra'', ''1'')]) =
      [(''extra'', ''1'')]"
    by (simp add: e m2)
  from bad 3 have 5: "factory one_option_mock VersionLatest [(''opt'', ''other'')] =
     (Inl (OptionError ''opt'' (Expected ''value'' ''other'')), [(''opt'', ''other'')])"
    by (metis prod.collapse)
  from extra 4 have 6: "factory one_option_mock VersionLatest [(''opt'', ''value''), (''extra'', ''1'')] =
     (Inl (OptionError ''extra'' Unexpected), [(''extra'', ''1'')])"
    by (metis prod.collapse)
  show ?thesis using wf 1 2 5 6 by (simp add: e m2)
qed

text \<open>
  C5 as stated fails on "does not mutate its inputs": called with exactly the declared
  option, the factory hands the caller's map back without it.
\<close>

theorem factory_mutates_options_counterexample:
  "snd (factory one_option_mock VersionLatest [(''opt'', ''value'')]) \<noteq> [(''opt'', ''value'')]"
  by (simp add: sample_mock_defs)

subsection \<open>Refresh of the mock exchange configuration\<close>

text \<open>
  C10. \<open>Refresh\<close> of the mock returns the token it was given, and leaves its owner as it
  was (no exchange function is called, nothing is recorded), whenever the token has no
  refresh token, or its refresh token is not one the mock has handed out, or the token
  is still valid.
\<close>

theorem Refresh_identity:
  assumes "RefreshToken t = [] \<or> getRefreshTokenCode owner (RefreshToken t) = None \<or> Valid now t"
  shows "Refresh fn now owner t = (Inr t, owner)"
  using assms by (auto simp: Refresh_def split: option.splits)

theorem Refresh_identity_witness:
  "Valid 0 sample_token \<and>
   getRefreshTokenCode (putRefreshTokenCode one_option_mock ''efgh'' ''123456'') (RefreshToken sample_token)
     = Some ''123456'' \<and>
   Refresh (Some ErrorMockExchange) 0 (putRefreshTokenCode one_option_mock ''efgh'' ''123456'') sample_token
     = (Inr sample_token, putRefreshTokenCode one_option_mock ''efgh'' ''123456'') \<and>
   getRefreshTokenCode one_option_mock (RefreshToken sample_token) = None \<and>
   Refresh (Some ErrorMockExchange) 0 one_option_mock sample_token = (Inr sample_token, one_option_mock)"
proof -
  have v: "Valid 0 sample_token"
    by (simp add: Valid_def expired_def sample_token_def)
  have u: "getRefreshTokenCode one_option_mock (RefreshToken sample_token) = None"
    by (simp add: getRefreshTokenCode_def sample_token_def sample_mock_defs)
  have k: "getRefreshTokenCode (putRefreshTokenCode one_option_mock ''efgh'' ''123456'')
      (RefreshToken sample_token) = Some ''123456''"
    by (simp add: getRefreshTokenCode_def putRefreshTokenCode_def sample_token_def)
  from Refresh_identity [of sample_token _ 0 "Some ErrorMockExchange"] v u k
  show ?thesis by simp
qed

section \<open>Properties of the configuration paths\<close>

lemmas sample_backend_defs =
  sample_backend_def sample_registry_def sample_consts_def mock_request_def empty_request_def
  bad_tuning_request_def failing_factory_def





text \<open>
  C2. When \<open>configUpdateOperation\<close> succeeds (nil response, nil error), the entry under
  \<open>config\<close> has the latest config version and the version of the provider that the
  registry built from the requested name and options; the operation has called the
  Store's writer and then \<open>reset\<close>, once each and in this order, and the cache is
  invalidated. When it does not succeed, no \<open>reset\<close> has happened.
\<close>

theorem config_update_success:
  "(fst (configUpdateOperation consts b data) = (None, None) \<longrightarrow>
      (\<exists>name p c.
         provider data = Some name \<and>
         fst (New (providerRegistry b) name (Get (provider_options data) [])) = Inr p \<and>
         kv (storage (snd (configUpdateOperation consts b data))) ConfigPath = Some (ConfigRecord c) \<and>
         Version c = ConfigVersionLatest consts \<and>
         ProviderVersion c = Provider_Version p \<and>
         trace (snd (configUpdateOperation consts b data)) = trace b @ [EvWriteConfig c, EvReset] \<and>
         cache (snd (configUpdateOperation consts b data)) = None)) \<and>
   (fst (configUpdateOperation consts b data) \<noteq> (None, None) \<longrightarrow>
      count_list (trace (snd (configUpdateOperation consts b data))) EvReset =
      count_list (trace b) EvReset)"
  by (auto simp: configUpdateOperation_def Let_def WriteConfig_def reset_def
      split: option.splits prod.splits sum.splits if_splits)

theorem config_update_success_witness:
  "fst (configUpdateOperation sample_consts sample_backend mock_request) = (None, None) \<and>
   trace (snd (configUpdateOperation sample_consts sample_backend mock_request)) =
     [EvWriteConfig
        \<lparr>Version = 2, ClientID = ''foo'', ClientSecret = ''bar'', AuthURLParams = [],
         ProviderName = ''mock'', ProviderVersion = 1, ProviderOptions = [],
         Tuning = DefaultConfigTuningEntry sample_consts\<rparr>,
      EvReset] \<and>
   fst (configUpdateOperation sample_consts sample_backend negative_attempts_request) \<noteq> (None, None) \<and>
   count_list (trace (snd (configUpdateOperation sample_consts sample_backend negative_attempts_request))) EvReset = 0"
proof -
  have ok: "fst (configUpdateOperation sample_consts sample_backend mock_request) = (None, None)"
    by (simp add: configUpdateOperation_def Let_def New_def NewAt_def sanity_check_def WriteConfig_def
        requested_tuning_def Get_def sample_backend_defs sample_mock_defs)
  have tr: "trace (snd (configUpdateOperation sample_consts sample_backend mock_request)) =
     [EvWriteConfig
        \<lparr>Version = 2, ClientID = ''foo'', ClientSecret = ''bar'', AuthURLParams = [],
         ProviderName = ''mock'', ProviderVersion = 1, ProviderOptions = [],
         Tuning = DefaultConfigTuningEntry sample_consts\<rparr>,
      EvReset]"
    by (simp add: configUpdateOperation_def Let_def New_def NewAt_def sanity_check_def WriteConfig_def
        reset_def requested_tuning_def Get_def sample_backend_defs sample_mock_defs)
  have no: "fst (configUpdateOperation sample_consts sample_backend negative_attempts_request) \<noteq> (None, None)"
    by (simp add: configUpdateOperation_def New_def NewAt_def sanity_check_def
        requested_tuning_def Get_def negative_attempts_request_def sample_backend_defs
        sample_mock_defs)
  have t0: "trace sample_backend = []" by (simp add: sample_backend_def)
  from config_update_success [of sample_consts sample_backend mock_request]
       config_update_success [of sample_consts sample_backend negative_attempts_request]
       ok tr no t0
  show ?thesis by simp
qed

lemma creds_key_not_config: "creds_key name \<noteq> ConfigPath"
  by (simp add: creds_key_def ConfigPath_def)

text \<open>
  C3. \<open>configDeleteOperation\<close> changes no key of the Store other than \<open>config\<close>; in
  particular the entry under \<open>creds/<name>\<close> is the same before and after, for every
  name. With a Store in order, the entry under \<open>config\<close> is gone afterwards, and the
  operation has called the Store's delete and then \<open>reset\<close>, once each and in this
  order. With a Store out of order, its error is returned, nothing is deleted and there
  is no \<open>reset\<close>.
\<close>

theorem config_delete_frame:
  "(\<forall>name. kv (storage (snd (configDeleteOperation b))) (creds_key name) =
            kv (storage b) (creds_key name)) \<and>
   (\<forall>k. k \<noteq> ConfigPath \<longrightarrow> kv (storage (snd (configDeleteOperation b))) k = kv (storage b) k) \<and>
   (case fault (storage b) of
      None \<Rightarrow>
        fst (configDeleteOperation b) = (None, None) \<and>
        kv (storage (snd (configDeleteOperation b))) ConfigPath = None \<and>
        trace (snd (configDeleteOperation b)) = trace b @ [EvDeleteConfig, EvReset] \<and>
        cache (snd (configDeleteOperation b)) = None
    | Some err \<Rightarrow>
        fst (configDeleteOperation b) = (None, Some err) \<and>
        storage (snd (configDeleteOperation b)) = storage b \<and>
        trace (snd (configDeleteOperation b)) = trace b @ [EvDeleteConfig] \<and>
        cache (snd (configDeleteOperation b)) = cache b)"
  using creds_key_not_config
  by (auto simp: configDeleteOperation_def DeleteConfig_def reset_def split: option.splits)


lemmas configured_backend_defs =
  configured_backend_def faulty_backend_def pinned_backend_def basic_config_def alice_def
  url_request_def sample_token_def

theorem config_delete_frame_witness:
  "fault (storage configured_backend) = None \<and>
   fst (configDeleteOperation configured_backend) = (None, None) \<and>
   kv (storage configured_backend) ConfigPath = Some (ConfigRecord basic_config) \<and>
   kv (storage (snd (configDeleteOperation configured_backend))) ConfigPath = None \<and>
   kv (storage (snd (configDeleteOperation configured_backend))) (creds_key ''alice'') =
     Some (CredentialRecord alice) \<and>
   trace (snd (configDeleteOperation configured_backend)) = [EvDeleteConfig, EvReset] \<and>
   fault (storage faulty_backend) = Some (ErrStorage ''unavailable'') \<and>
   fst (configDeleteOperation faulty_backend) = (None, Some (ErrStorage ''unavailable'')) \<and>
   trace (snd (configDeleteOperation faulty_backend)) = [EvDeleteConfig]"
proof -
  have f: "fault (storage configured_backend) = None"
    and g: "fault (storage faulty_backend) = Some (ErrStorage ''unavailable'')"
    and t: "trace configured_backend = []" "trace faulty_backend = []"
    by (simp_all add: configured_backend_defs sample_backend_defs)
  have k: "kv (storage configured_backend) ConfigPath = Some (ConfigRecord basic_config)"
    and a: "kv (storage configured_backend) (creds_key ''alice'') = Some (CredentialRecord alice)"
    by (simp_all add: configured_backend_def creds_key_def ConfigPath_def)
  from config_delete_frame [of configured_backend] config_delete_frame [of faulty_backend]
  show ?thesis using f g t k a by simp
qed

text \<open>
  C9. What \<open>configReadOperation\<close> returns is the same for two backends that differ only
  in the client secret of the stored or cached ConfigEntry; a response with data has
  exactly the keys \<open>config_read_keys\<close>, in which \<open>client_secret\<close> does not occur.
\<close>

theorem config_read_hides_secret:
  "fst (configReadOperation (with_client_secret x b)) =
   fst (configReadOperation (with_client_secret y b)) \<and>
   (\<forall>r. fst (configReadOperation b) = (Some r, None) \<longrightarrow>
      (\<exists>d. r = DataResponse d \<and> map fst d = config_read_keys)) \<and>
   ''client_secret'' \<notin> set config_read_keys"
proof -
  have same: "fst (configReadOperation (with_client_secret x b)) =
      fst (configReadOperation (with_client_secret y b))"
  proof (cases "cache b")
    case (Some c)
    then show ?thesis
      by (simp add: configReadOperation_def getCache_def with_client_secret_def)
  next
    case None
    show ?thesis
    proof (cases "ReadConfig (storage b)")
      case (Inl err)
      with None show ?thesis
        by (auto simp: configReadOperation_def getCache_def with_client_secret_def ReadConfig_def
            split: option.splits entry.splits)
    next
      case (Inr found)
      show ?thesis
      proof (cases found)
        case none: None
        with None Inr show ?thesis
          by (auto simp: configReadOperation_def getCache_def with_client_secret_def
              ReadConfig_def entry_with_client_secret_def
              split: option.splits entry.splits)
      next
        case (Some cfg)
        with Inr have st: "fault (storage b) = None"
          "kv (storage b) ConfigPath = Some (ConfigRecord cfg)"
          by (auto simp: ReadConfig_def split: option.splits entry.splits)
        have rd: "ReadConfig (storage (with_client_secret z b)) = Inr (Some (cfg\<lparr>ClientSecret := z\<rparr>))"
          for z
          using st by (simp add: ReadConfig_def with_client_secret_def entry_with_client_secret_def)
        have ca: "cache (with_client_secret z b) = None"
          and rg: "providerRegistry (with_client_secret z b) = providerRegistry b" for z
          using None by (simp_all add: with_client_secret_def)
        show ?thesis
          by (cases "fst (NewAt (providerRegistry b) (ProviderName cfg) (ProviderVersion cfg)
                (ProviderOptions cfg))")
             (simp_all add: configReadOperation_def getCache_def rd ca rg)
      qed
    qed
  qed
  have keys: "\<exists>d. r = DataResponse d \<and> map fst d = config_read_keys"
    if "fst (configReadOperation b) = (Some r, None)" for r
    using that
    by (auto simp: configReadOperation_def config_read_keys_def split: prod.splits sum.splits option.splits)
  have "''client_secret'' \<notin> set config_read_keys"
    by (simp add: config_read_keys_def)
  with same keys show ?thesis by blast
qed


theorem config_read_hides_secret_witness:
  "ReadConfig (storage (with_client_secret ''one'' configured_backend)) =
     Inr (Some (basic_config\<lparr>ClientSecret := ''one''\<rparr>)) \<and>
   ReadConfig (storage (with_client_secret ''two'' configured_backend)) =
     Inr (Some (basic_config\<lparr>ClientSecret := ''two''\<rparr>)) \<and>
   fst (configReadOperation (with_client_secret ''one'' configured_backend)) =
   fst (configReadOperation (with_client_secret ''two'' configured_backend)) \<and>
   (\<exists>d. fst (configReadOperation configured_backend) = (Some (DataResponse d), None) \<and>
        map fst d = config_read_keys)"
proof -
  have r: "ReadConfig (storage (with_client_secret z configured_backend)) =
     Inr (Some (basic_config\<lparr>ClientSecret := z\<rparr>))" for z
    by (simp add: ReadConfig_def with_client_secret_def entry_with_client_secret_def
        configured_backend_def ConfigPath_def creds_key_def)
  have "\<exists>r. fst (configReadOperation configured_backend) = (Some r, None)"
    by (simp add: configReadOperation_def getCache_def ReadConfig_def NewAt_def BasicFactory_def
        configured_backend_defs sample_backend_defs ConfigPath_def creds_key_def)
  then obtain d where "fst (configReadOperation configured_backend) = (Some (DataResponse d), None)"
    and "map fst d = config_read_keys"
    using config_read_hides_secret [of "''one''" configured_backend "''two''"] by blast
  moreover have "fst (configReadOperation (with_client_secret ''one'' configured_backend)) =
      fst (configReadOperation (with_client_secret ''two'' configured_backend))"
    using config_read_hides_secret [of "''one''" configured_backend "''two''"] by blast
  ultimately show ?thesis using r by blast
qed

text \<open>
  C8, as the code has it. \<open>configUpdateOperation\<close> answers a request without
  \<open>client_id\<close>, or with \<open>client_id\<close> and without \<open>provider\<close>, with an error response
  and a nil error, and changes nothing. \<open>configAuthCodeURLUpdateOperation\<close> first asks
  for the cache: with no bundle (no ConfigEntry stored, Store in order) it answers
  "not configured"; with a bundle and no \<open>state\<close> it answers "missing state"; and when
  the cache cannot be had, it returns that error and no response, whether or not the
  request carries a \<open>state\<close>.
\<close>

theorem missing_input_responses:
  "(client_id data = None \<longrightarrow>
      configUpdateOperation consts b data =
        ((Some (ErrorResponse (Text ''missing client ID'')), None), b)) \<and>
   (client_id data \<noteq> None \<and> provider data = None \<longrightarrow>
      configUpdateOperation consts b data =
        ((Some (ErrorResponse (Text ''missing provider'')), None), b)) \<and>
   (\<forall>b'. getCache b = (Inr None, b') \<longrightarrow>
      configAuthCodeURLUpdateOperation b data =
        ((Some (ErrorResponse (Text ''not configured'')), None), b')) \<and>
   (\<forall>c b'. getCache b = (Inr (Some c), b') \<and> state data = None \<longrightarrow>
      configAuthCodeURLUpdateOperation b data =
        ((Some (ErrorResponse (Text ''missing state'')), None), b')) \<and>
   (\<forall>err b'. getCache b = (Inl err, b') \<longrightarrow>
      configAuthCodeURLUpdateOperation b data = ((None, Some err), b')) \<and>
   (cache b = None \<and> fault (storage b) = None \<and> kv (storage b) ConfigPath = None \<longrightarrow>
      getCache b = (Inr None, b))"
  by (auto simp: configUpdateOperation_def configAuthCodeURLUpdateOperation_def getCache_def
      ReadConfig_def split: option.splits)

theorem missing_input_responses_witness:
  "client_id empty_request = None \<and>
   configUpdateOperation sample_consts sample_backend empty_request =
     ((Some (ErrorResponse (Text ''missing client ID'')), None), sample_backend) \<and>
   provider (empty_request\<lparr>client_id := Some ''foo''\<rparr>) = None \<and>
   configUpdateOperation sample_consts sample_backend (empty_request\<lparr>client_id := Some ''foo''\<rparr>) =
     ((Some (ErrorResponse (Text ''missing provider'')), None), sample_backend) \<and>
   kv (storage sample_backend) ConfigPath = None \<and>
   configAuthCodeURLUpdateOperation sample_backend url_request =
     ((Some (ErrorResponse (Text ''not configured'')), None), sample_backend) \<and>
   state empty_request = None \<and>
   fst (configAuthCodeURLUpdateOperation configured_backend empty_request) =
     (Some (ErrorResponse (Text ''missing state'')), None) \<and>
   fst (configAuthCodeURLUpdateOperation faulty_backend empty_request) =
     (None, Some (ErrStorage ''unavailable''))"
proof -
  have e: "client_id empty_request = None" "state empty_request = None"
    "provider (empty_request\<lparr>client_id := Some ''foo''\<rparr>) = None"
    "client_id (empty_request\<lparr>client_id := Some ''foo''\<rparr>) \<noteq> None"
    by (simp_all add: empty_request_def)
  have s: "cache sample_backend = None" "fault (storage sample_backend) = None"
    "kv (storage sample_backend) ConfigPath = None"
    by (simp_all add: sample_backend_def)
  have c: "\<exists>c b'. getCache configured_backend = (Inr (Some c), b')"
    by (simp add: getCache_def ReadConfig_def NewAt_def BasicFactory_def
        configured_backend_defs sample_backend_defs ConfigPath_def creds_key_def)
  have f: "\<exists>b'. getCache faulty_backend = (Inl (ErrStorage ''unavailable''), b')"
    by (simp add: getCache_def ReadConfig_def configured_backend_defs sample_backend_defs)
  obtain c b' where c': "getCache configured_backend = (Inr (Some c), b')"
    using c by blast
  obtain b'' where f': "getCache faulty_backend = (Inl (ErrStorage ''unavailable''), b'')"
    using f by blast
  from missing_input_responses [of empty_request sample_consts sample_backend] e(1)
  have 1: "configUpdateOperation sample_consts sample_backend empty_request =
     ((Some (ErrorResponse (Text ''missing client ID'')), None), sample_backend)"
    by blast
  from missing_input_responses [of "empty_request\<lparr>client_id := Some ''foo''\<rparr>" sample_consts sample_backend] e(3,4)
  have 2: "configUpdateOperation sample_consts sample_backend (empty_request\<lparr>client_id := Some ''foo''\<rparr>) =
     ((Some (ErrorResponse (Text ''missing provider'')), None), sample_backend)"
    by blast
  from missing_input_responses [of url_request sample_consts sample_backend] s
  have 3: "configAuthCodeURLUpdateOperation sample_backend url_request =
     ((Some (ErrorResponse (Text ''not configured'')), None), sample_backend)"
    by blast
  from missing_input_responses [of empty_request sample_consts configured_backend] c' e(2)
  have 4: "configAuthCodeURLUpdateOperation configured_backend empty_request =
     ((Some (ErrorResponse (Text ''missing state'')), None), b')"
    by blast
  from missing_input_responses [of empty_request sample_consts faulty_backend] f'
  have 5: "configAuthCodeURLUpdateOperation faulty_backend empty_request =
     ((None, Some (ErrStorage ''unavailable'')), b'')"
    by blast
  show ?thesis using e s 1 2 3 4 5 by simp
qed

text \<open>
  C8 as stated fails: a request without \<open>state\<close>, on a backend whose stored entry pins
  version 2 of a provider registered at version 1, gets no error response but the
  error of the registry.
\<close>

theorem auth_code_url_pinned_version_counterexample:
  "state empty_request = None \<and>
   fst (configAuthCodeURLUpdateOperation pinned_backend empty_request) =
     (None, Some ErrNoProviderWithVersion)"
  by (simp add: configAuthCodeURLUpdateOperation_def getCache_def ReadConfig_def NewAt_def
      configured_backend_defs sample_backend_defs sample_mock_defs ConfigPath_def)


subsection \<open>The authorization code URL\<close>

lemma update_fresh: "k \<notin> fst ` set q \<Longrightarrow> AList.update k v q = q @ [(k, v)]"
  by (induction q) auto

lemma fold_update_fresh:
  "distinct (map fst ps) \<Longrightarrow> fst ` set ps \<inter> fst ` set q = {} \<Longrightarrow>
     fold (\<lambda>(k, v). AList.update k v) ps q = q @ ps"
proof (induction ps arbitrary: q)
  case Nil
  then show ?case by simp
next
  case (Cons p ps)
  obtain k v where p: "p = (k, v)" by (cases p)
  from Cons.prems p have fresh: "k \<notin> fst ` set q" by auto
  from Cons.prems p have d: "distinct (map fst ps)" and "k \<notin> fst ` set ps" by auto
  with Cons.prems(2) p have "fst ` set ps \<inter> fst ` set (q @ [(k, v)]) = {}" by auto
  from Cons.IH [OF d this] show ?case
    by (simp add: p update_fresh [OF fresh])
qed

text \<open>
  C6. On a backend whose cache holds a basic provider and the client identifier \<open>foo\<close>,
  the request with state \<open>s\<close>, the redirect URL \<open>http://example.com/redirect\<close>, the
  scopes \<open>a\<close>, \<open>b\<close>, \<open>c\<close> and the URL parameter \<open>baz=quux\<close> gets a URL at the
  provider's authorization endpoint whose query is exactly \<open>response_type=code\<close>,
  \<open>client_id=foo\<close>, the redirect URL, \<open>scope=a b c\<close>, \<open>state=s\<close>, \<open>baz=quux\<close> and the
  configured \<open>auth_url_params\<close> (a map whose keys are none of the former).
\<close>

theorem auth_code_url_query:
  assumes "getCache b = (Inr (Some c), b')"
    and "Provider c = basicProvider ep"
    and "ClientID (Config c) = ''foo''"
    and "state data = Some ''s''"
    and "redirect_url data = Some ''http://example.com/redirect''"
    and "scopes data = Some [''a'', ''b'', ''c'']"
    and "auth_url_params data = Some [(''baz'', ''quux'')]"
    and "wf_gomap (AuthURLParams (Config c))"
    and "fst ` set (AuthURLParams (Config c)) \<inter>
           {''response_type'', ''client_id'', ''redirect_uri'', ''scope'', ''state'', ''baz''} = {}"
  shows "configAuthCodeURLUpdateOperation b data =
     ((Some (DataResponse
        [(''url'', VURL
           \<lparr>endpoint = AuthURL ep,
            query =
              [(''response_type'', ''code''), (''client_id'', ''foo''),
               (''redirect_uri'', ''http://example.com/redirect''),
               (''scope'', ''a b c''), (''state'', ''s''), (''baz'', ''quux'')] @
              AuthURLParams (Config c)\<rparr>)]), None), b')"
proof -
  let ?base = "[(''response_type'', ''code''), (''client_id'', ''foo''),
     (''redirect_uri'', ''http://example.com/redirect''), (''scope'', ''a b c''), (''state'', ''s'')]"
  let ?ps = "AuthURLParams (Config c)"
  have one: "AList.update ''baz'' ''quux'' ?base = ?base @ [(''baz'', ''quux'')]"
    by simp
  from assms(8) have d: "distinct (map fst ?ps)" by (simp add: wf_gomap_def)
  from assms(9) have "fst ` set ?ps \<inter> fst ` set (?base @ [(''baz'', ''quux'')]) = {}"
    by auto
  from fold_update_fresh [OF d this]
  have q: "fold (\<lambda>(k, v). AList.update k v) ?ps (?base @ [(''baz'', ''quux'')]) =
      ?base @ [(''baz'', ''quux'')] @ ?ps" by simp
  have "Public_AuthCodeURL (Provider c) (ClientID (Config c)) ''s''
      [WithRedirectURL ''http://example.com/redirect'', WithScopes [''a'', ''b'', ''c''],
       WithURLParams [(''baz'', ''quux'')], WithURLParams ?ps,
       WithProviderOptions (Get (provider_options data) [])] =
     (\<lparr>endpoint = AuthURL ep, query = ?base @ [(''baz'', ''quux'')] @ ?ps\<rparr>, True)"
    using q one
    by (simp add: Public_AuthCodeURL_def AuthCodeURL_def assms(2,3)
        NewConformingAuthCodeURLConfigBuilder_def)
  then show ?thesis
    by (simp add: configAuthCodeURLUpdateOperation_def assms(1,4-7) Get_def)
qed


theorem auth_code_url_query_witness:
  "wf_gomap (AuthURLParams basic_config) \<and>
   configAuthCodeURLUpdateOperation configured_backend url_request =
     ((Some (DataResponse
        [(''url'', VURL
           \<lparr>endpoint = ''http://localhost/authorize'',
            query =
              [(''response_type'', ''code''), (''client_id'', ''foo''),
               (''redirect_uri'', ''http://example.com/redirect''),
               (''scope'', ''a b c''), (''state'', ''s''), (''baz'', ''quux''),
               (''audience'', ''x'')]\<rparr>)]), None),
      configured_backend\<lparr>cache := Some \<lparr>Config = basic_config, Provider = basicProvider MockEndpoint\<rparr>\<rparr>)"
proof -
  let ?c = "\<lparr>Config = basic_config, Provider = basicProvider MockEndpoint\<rparr>"
  have g: "getCache configured_backend = (Inr (Some ?c), configured_backend\<lparr>cache := Some ?c\<rparr>)"
    by (simp add: getCache_def ReadConfig_def NewAt_def BasicFactory_def
        configured_backend_def basic_config_def sample_backend_def sample_registry_def
        ConfigPath_def creds_key_def)
  have p: "Provider ?c = basicProvider MockEndpoint" "ClientID (Config ?c) = ''foo''"
    "AuthURLParams (Config ?c) = [(''audience'', ''x'')]"
    by (simp_all add: basic_config_def)
  have r: "state url_request = Some ''s''"
    "redirect_url url_request = Some ''http://example.com/redirect''"
    "scopes url_request = Some [''a'', ''b'', ''c'']"
    "auth_url_params url_request = Some [(''baz'', ''quux'')]"
    by (simp_all add: url_request_def empty_request_def)
  have w: "wf_gomap (AuthURLParams (Config ?c))"
    and f: "fst ` set (AuthURLParams (Config ?c)) \<inter>
           {''response_type'', ''client_id'', ''redirect_uri'', ''scope'', ''state'', ''baz''} = {}"
    by (simp_all add: basic_config_def wf_gomap_def)
  have a: "AuthURLParams basic_config = [(''audience'', ''x'')]"
    by (simp add: basic_config_def)
  from auth_code_url_query [OF g p(1) p(2) r w f] w
  show ?thesis by (simp add: a MockEndpoint_def MockAuthCodeURL_def)
qed

text \<open>The builder chain of \<open>TestBasicAuthCodeURLConfig\<close>, with the state of the test.\<close>

lemma TestBasicAuthCodeURLConfig:
  "AuthCodeURL
     (apply_option (WithScopes [''a'', ''b'', ''c''])
        (apply_option (WithRedirectURL ''http://example.com/redirect'')
           (NewAuthCodeURLConfigBuilder (basicProvider MockEndpoint) ''foo'')))
     ''state'' [(''baz'', ''quux'')] =
   \<lparr>endpoint = ''http://localhost/authorize'',
    query =
      [(''response_type'', ''code''), (''client_id'', ''foo''),
       (''redirect_uri'', ''http://example.com/redirect''), (''scope'', ''a b c''),
       (''state'', ''state''), (''baz'', ''quux'')]\<rparr>"
  by (simp add: AuthCodeURL_def NewConformingAuthCodeURLConfigBuilder_def MockEndpoint_def
      MockAuthCodeURL_def)

subsection \<open>Exchange and refresh with the basic provider\<close>

lemma test_config: "test_exchange_config =
    \<lparr>exClientID = ''foo'', exClientSecret = ''bar'',
     exRedirectURL = ''http://example.com/redirect'', exEndpoint = MockEndpoint\<rparr>"
  by (simp add: test_exchange_config_def basic_WithRedirectURL_def
      basic_NewExchangeConfigBuilder_def)

lemma token_path: "url_path (TokenURL MockEndpoint) = ''/token''"
  by (simp add: url_path_def MockEndpoint_def MockTokenURL_def)

lemma exchange_request:
  "token_request test_exchange_config (exchange_params test_exchange_config ''123456'' [(''baz'', ''quux'')]) =
     [(''grant_type'', ''authorization_code''), (''code'', ''123456''),
      (''redirect_uri'', ''http://example.com/redirect''), (''baz'', ''quux''),
      (''client_id'', ''foo''), (''client_secret'', ''bar'')]"
  by (simp add: test_config token_request_def exchange_params_def)

lemma refresh_request:
  "RefreshToken t = ''efgh'' \<Longrightarrow>
   token_request test_exchange_config (refresh_params t) =
     [(''grant_type'', ''refresh_token''), (''refresh_token'', ''efgh''),
      (''client_id'', ''foo''), (''client_secret'', ''bar'')]"
  by (simp add: test_config token_request_def refresh_params_def)

lemma first_body:
  "token_of_body now ''access_token=abcd&refresh_token=efgh&token_type=bearer&expires_in=5'' =
     \<lparr>AccessToken = ''abcd'', TokenType = ''bearer'', RefreshToken = ''efgh'',
      Expiry = Some (now + 5 * second)\<rparr>"
  by (simp add: token_of_body_def ParseQuery_def form_get_def unsigned_def digit_of_def Let_def)

lemma second_body:
  "token_of_body now ''access_token=ijkl&refresh_token=efgh&token_type=bearer&expires_in=3600'' =
     \<lparr>AccessToken = ''ijkl'', TokenType = ''bearer'', RefreshToken = ''efgh'',
      Expiry = Some (now + 3600 * second)\<rparr>"
  by (simp add: token_of_body_def ParseQuery_def form_get_def unsigned_def digit_of_def Let_def)

lemma bearer_type: "TokenType t = ''bearer'' \<Longrightarrow> Token_Type t = ''Bearer''"
  by (simp add: Token_Type_def EqualFold_def)


text \<open>
  C7. With the exchange configuration of the test (client \<open>foo\<close>/\<open>bar\<close>, redirect URL
  \<open>http://example.com/redirect\<close>) and its token endpoint, exchanging the code
  \<open>123456\<close> at the time \<open>now\<close> returns the token \<open>abcd\<close> with refresh token \<open>efgh\<close>,
  type \<open>Bearer\<close> up to case, expiring five seconds later. At any time from \<open>now\<close> on
  that token is not valid, and refreshing it returns the token \<open>ijkl\<close>, which is valid
  then. Both requests pass the assertions of the test's handler.
\<close>

theorem basic_exchange_then_refresh:
  assumes "now \<le> later"
  shows "basic_Exchange test_handler test_exchange_config now ''123456'' [(''baz'', ''quux'')] =
           Inr \<lparr>AccessToken = ''abcd'', TokenType = ''bearer'', RefreshToken = ''efgh'',
                Expiry = Some (now + 5 * second)\<rparr> \<and>
         Token_Type \<lparr>AccessToken = ''abcd'', TokenType = ''bearer'', RefreshToken = ''efgh'',
                Expiry = Some (now + 5 * second)\<rparr> = ''Bearer'' \<and>
         \<not> Valid later \<lparr>AccessToken = ''abcd'', TokenType = ''bearer'', RefreshToken = ''efgh'',
                Expiry = Some (now + 5 * second)\<rparr> \<and>
         basic_Refresh test_handler test_exchange_config later
             \<lparr>AccessToken = ''abcd'', TokenType = ''bearer'', RefreshToken = ''efgh'',
              Expiry = Some (now + 5 * second)\<rparr> =
           Inr \<lparr>AccessToken = ''ijkl'', TokenType = ''bearer'', RefreshToken = ''efgh'',
                Expiry = Some (later + 3600 * second)\<rparr> \<and>
         Valid later \<lparr>AccessToken = ''ijkl'', TokenType = ''bearer'', RefreshToken = ''efgh'',
                Expiry = Some (later + 3600 * second)\<rparr> \<and>
         test_handler_asserts (url_path (TokenURL (exEndpoint test_exchange_config)))
           (token_request test_exchange_config
              (exchange_params test_exchange_config ''123456'' [(''baz'', ''quux'')])) \<and>
         test_handler_asserts (url_path (TokenURL (exEndpoint test_exchange_config)))
           (token_request test_exchange_config
              (refresh_params \<lparr>AccessToken = ''abcd'', TokenType = ''bearer'', RefreshToken = ''efgh'',
                 Expiry = Some (now + 5 * second)\<rparr>))"
proof -
  let ?tok = "\<lparr>AccessToken = ''abcd'', TokenType = ''bearer'', RefreshToken = ''efgh'',
     Expiry = Some (now + 5 * second)\<rparr>"
  let ?tok' = "\<lparr>AccessToken = ''ijkl'', TokenType = ''bearer'', RefreshToken = ''efgh'',
     Expiry = Some (later + 3600 * second)\<rparr>"
  have ep: "url_path (TokenURL (exEndpoint test_exchange_config)) = ''/token''"
    by (simp add: test_config token_path)
  have rq: "token_request test_exchange_config (refresh_params ?tok) =
     [(''grant_type'', ''refresh_token''), (''refresh_token'', ''efgh''),
      (''client_id'', ''foo''), (''client_secret'', ''bar'')]"
    by (rule refresh_request) simp
  have ex: "basic_Exchange test_handler test_exchange_config now ''123456'' [(''baz'', ''quux'')] = Inr ?tok"
    by (simp add: basic_Exchange_def retrieveToken_def ep exchange_request test_handler_def
        form_get_def first_body)
  have ty: "Token_Type ?tok = ''Bearer''"
    by (rule bearer_type) simp
  have inv: "\<not> Valid later ?tok"
    using assms by (simp add: Valid_def expired_def expiryDelta_def second_def)
  have rt: "retrieveToken test_handler test_exchange_config later (refresh_params ?tok) = Inr ?tok'"
    by (simp add: retrieveToken_def ep rq test_handler_def form_get_def second_body)
  have rf: "basic_Refresh test_handler test_exchange_config later ?tok = Inr ?tok'"
    using inv by (simp add: basic_Refresh_def rt)
  have val: "Valid later ?tok'"
    by (simp add: Valid_def expired_def expiryDelta_def second_def)
  have a1: "test_handler_asserts (url_path (TokenURL (exEndpoint test_exchange_config)))
           (token_request test_exchange_config
              (exchange_params test_exchange_config ''123456'' [(''baz'', ''quux'')]))"
    by (simp add: ep exchange_request test_handler_asserts_def form_get_def)
  have a2: "test_handler_asserts (url_path (TokenURL (exEndpoint test_exchange_config)))
           (token_request test_exchange_config (refresh_params ?tok))"
    by (simp add: ep rq test_handler_asserts_def form_get_def)
  from ex ty inv rf val a1 a2 show ?thesis by simp
qed

theorem basic_exchange_then_refresh_witness:
  "(0::int) \<le> 7 * second \<and>
   basic_Exchange test_handler test_exchange_config 0 ''123456'' [(''baz'', ''quux'')] =
     Inr \<lparr>AccessToken = ''abcd'', TokenType = ''bearer'', RefreshToken = ''efgh'',
          Expiry = Some (5 * second)\<rparr> \<and>
   basic_Refresh test_handler test_exchange_config (7 * second)
       \<lparr>AccessToken = ''abcd'', TokenType = ''bearer'', RefreshToken = ''efgh'',
        Expiry = Some (5 * second)\<rparr> =
     Inr \<lparr>AccessToken = ''ijkl'', TokenType = ''bearer'', RefreshToken = ''efgh'',
          Expiry = Some (3607 * second)\<rparr>"
proof -
  have h: "(0::int) \<le> 7 * second" by (simp add: second_def)
  from basic_exchange_then_refresh [OF h] h show ?thesis by simp
qed

end
